theory Spec2Isabelle
  imports Complex_Main "HOL-Library.Sublist"
begin

section \<open>Reconnect policy of the poll loop\<close>

text \<open>
  \<^verbatim>\<open>VPNManager.__init__\<close> fixes the three constants of the always-on reconnect policy;
  \<^verbatim>\<open>VPNManager._poll_loop\<close> (lines 768-788) holds the decision itself. The entry of
  \<^verbatim>\<open>_reconnect_state\<close> is a dict \<^verbatim>\<open>{last_attempt, attempts}\<close>: \<^verbatim>\<open>last_attempt\<close> is 0 or a
  value of \<^verbatim>\<open>time.time()\<close> (a time in seconds, taken here as a real number), and
  \<^verbatim>\<open>attempts\<close> starts at 0 and is only ever incremented, so it is a natural number.
\<close>

definition RECONNECT_BASE_DELAY :: int where
  "RECONNECT_BASE_DELAY = 10"

definition RECONNECT_MAX_DELAY :: int where
  "RECONNECT_MAX_DELAY = 300"

definition RECONNECT_MAX_ATTEMPTS :: nat where
  "RECONNECT_MAX_ATTEMPTS = 10"

record reconnect_entry =
  last_attempt :: real
  attempts :: nat

text \<open>\<^verbatim>\<open>delay = min(self._RECONNECT_BASE_DELAY * (2 ** rs["attempts"]), self._RECONNECT_MAX_DELAY)\<close>\<close>

definition reconnect_delay :: "nat \<Rightarrow> int" where
  "reconnect_delay n = min (RECONNECT_BASE_DELAY * 2 ^ n) RECONNECT_MAX_DELAY"

text \<open>
  What one pass through lines 776-788 decides: \<open>GaveUp\<close> is the branch that prints
  "gave up" (taken when \<^verbatim>\<open>attempts == MAX_ATTEMPTS\<close>), \<open>Silent\<close> the give-up branch
  that does nothing any more, \<open>Attempt\<close> the branch that calls \<^verbatim>\<open>apply_proxy\<close>, and
  \<open>Wait\<close> the case where neither branch of the \<^verbatim>\<open>if/elif\<close> is taken.
\<close>

datatype decision = GaveUp | Silent | Attempt | Wait

text \<open>
  The decision and the entry written back to \<^verbatim>\<open>self._reconnect_state[name]\<close>
  (\<open>None\<close> when the branch stores nothing).
\<close>

definition reconnect_decide :: "reconnect_entry \<Rightarrow> real \<Rightarrow> decision \<times> reconnect_entry option" where
  "reconnect_decide rs now =
     (let delay = reconnect_delay (attempts rs) in
      if attempts rs \<ge> RECONNECT_MAX_ATTEMPTS then
        (if attempts rs = RECONNECT_MAX_ATTEMPTS
         then (GaveUp, Some (rs\<lparr>attempts := attempts rs + 1\<rparr>))
         else (Silent, None))
      else if now - last_attempt rs \<ge> real_of_int delay then
        (Attempt, Some (rs\<lparr>last_attempt := now, attempts := attempts rs + 1\<rparr>))
      else (Wait, None))"

text \<open>
  Consecutive poll cycles at the times \<open>ts\<close> that all observe the device stopped and
  whose reconnect attempts all fail: a failed attempt leaves the stored entry as the
  decision wrote it.
\<close>

fun run_policy :: "reconnect_entry \<Rightarrow> real list \<Rightarrow> decision list" where
  "run_policy rs [] = []"
| "run_policy rs (t # ts) =
     (case reconnect_decide rs t of
        (d, None) \<Rightarrow> d # run_policy rs ts
      | (d, Some rs') \<Rightarrow> d # run_policy rs' ts)"

section \<open>Strings\<close>

text \<open>
  Python strings are modelled as \<open>string\<close>, one \<open>char\<close> per byte of the UTF-8 text.
  \<open>sq\<close> is the single quote and \<open>nl\<close> the newline. The test \<^verbatim>\<open>a in b\<close> on two strings
  is \<open>sublist a b\<close>.
\<close>

definition sq :: char where
  "sq = CHR 0x27"

definition nl :: char where
  "nl = CHR 0x0A"

text \<open>\<^verbatim>\<open>s.replace("'", "''")\<close>\<close>

definition replace_sq :: "string \<Rightarrow> string" where
  "replace_sq s = concat (map (\<lambda>c. if c = sq then [sq, sq] else [c]) s)"

text \<open>The characters \<^verbatim>\<open>str.strip()\<close> removes and \<^verbatim>\<open>\s\<close> matches, as far as they are ASCII.\<close>

definition is_space :: "char \<Rightarrow> bool" where
  "is_space c \<longleftrightarrow> c \<in> set [CHR 0x20, CHR 0x09, CHR 0x0A, CHR 0x0B, CHR 0x0C, CHR 0x0D,
                                CHR 0x1C, CHR 0x1D, CHR 0x1E, CHR 0x1F]"

definition strip :: "string \<Rightarrow> string" where
  "strip s = rev (dropWhile is_space (rev (dropWhile is_space s)))"

text \<open>The decimal text of an integer, as an f-string prints it.\<close>

fun str_nat :: "nat \<Rightarrow> string" where
  "str_nat n = (if n < 10 then [''0123456789'' ! n]
                else str_nat (n div 10) @ [''0123456789'' ! (n mod 10)])"

declare str_nat.simps [simp del]

definition str_int :: "int \<Rightarrow> string" where
  "str_int i = (if i < 0 then CHR ''-'' # str_nat (nat (- i)) else str_nat (nat i))"

section \<open>Tunnel descriptor\<close>

definition TUNNEL_PID :: string where
  "TUNNEL_PID = ''/data/local/tmp/hev-socks5-tunnel.pid''"

definition TUNNEL_MARK :: int where
  "TUNNEL_MARK = 438"

definition TUNNEL_TABLE :: int where
  "TUNNEL_TABLE = 20"

text \<open>
  The local \<^verbatim>\<open>auth_lines\<close> of \<^verbatim>\<open>_build_tunnel_config\<close>: empty unless both the user name
  and the password are non-empty strings.
\<close>

definition auth_lines :: "string \<Rightarrow> string \<Rightarrow> string" where
  "auth_lines username password =
     (if username \<noteq> [] \<and> password \<noteq> [] then
        ''  username: '' @ [sq] @ replace_sq username @ [sq, nl]
        @ ''  password: '' @ [sq] @ replace_sq password @ [sq, nl]
      else [])"

text \<open>\<^verbatim>\<open>_build_tunnel_config(server, port, username, password)\<close>, lines 180-211.\<close>

definition build_tunnel_config :: "string \<Rightarrow> int \<Rightarrow> string \<Rightarrow> string \<Rightarrow> string" where
  "build_tunnel_config server port username password =
     ''tunnel:'' @ [nl]
     @ ''  name: tun0'' @ [nl]
     @ ''  mtu: 1500'' @ [nl]
     @ ''  ipv4: 198.18.0.1'' @ [nl]
     @ [nl]
     @ ''socks5:'' @ [nl]
     @ ''  port: '' @ str_int port @ [nl]
     @ ''  address: '' @ [sq] @ server @ [sq, nl]
     @ ''  udp: '' @ [sq] @ ''tcp'' @ [sq, nl]
     @ auth_lines username password
     @ ''  mark: '' @ str_int TUNNEL_MARK @ [nl]
     @ [nl]
     @ ''misc:'' @ [nl]
     @ ''  task-stack-size: 24576'' @ [nl]
     @ ''  connect-timeout: 5000'' @ [nl]
     @ ''  read-write-timeout: 60000'' @ [nl]
     @ ''  log-level: warn'' @ [nl]
     @ ''  pid-file: '' @ TUNNEL_PID @ [nl]"

section \<open>The device channel\<close>

text \<open>
  Every device-side effect goes through \<^verbatim>\<open>randomize_instances.adb_shell\<close>, which returns a
  \<^verbatim>\<open>CompletedProcess\<close> (\<^verbatim>\<open>run_cmd\<close> turns a timeout into return code 1 with empty
  output). The shell texts of the source are the constructors of \<open>cmd\<close>; the routes and
  rules they name are values of \<open>route\<close> and \<open>rule\<close>.
\<close>

record completed_process =
  returncode :: int
  stdout :: string
  stderr :: string

datatype route = Route (dest: string) (via: "string option") (dev: string)

datatype rule = Rule (fwmark: "int option") (lookup: string) (pref: int)

datatype cmd =
    TestBin \<comment> \<open>\<^verbatim>\<open>su -c 'test -x {TUNNEL_BIN} && echo OK'\<close>\<close>
  | ChmodBin \<comment> \<open>\<^verbatim>\<open>su -c 'chmod 755 {TUNNEL_BIN}'\<close>\<close>
  | KillPkill \<comment> \<open>\<^verbatim>\<open>su -c 'kill $(head -1 {TUNNEL_PID}); pkill -9 hev-socks5; rm -f {TUNNEL_PID}; true'\<close>\<close>
  | IpRouteAdd route \<comment> \<open>\<^verbatim>\<open>su -c 'ip route add ... 2>/dev/null; true'\<close>\<close>
  | IpRouteDel route \<comment> \<open>\<^verbatim>\<open>su -c 'ip route del ... 2>/dev/null; true'\<close>\<close>
  | IpRuleAdd rule \<comment> \<open>\<^verbatim>\<open>su -c 'ip rule add ... 2>/dev/null; true'\<close>\<close>
  | IpRuleDel rule \<comment> \<open>\<^verbatim>\<open>su -c 'ip rule del ... 2>/dev/null; true'\<close>\<close>
  | IpRouteFlush int \<comment> \<open>\<^verbatim>\<open>su -c 'ip route flush table {TUNNEL_TABLE} 2>/dev/null; true'\<close>\<close>
  | IpLinkDelete \<comment> \<open>\<^verbatim>\<open>su -c 'ip link delete tun0 2>/dev/null; true'\<close>\<close>
  | WriteConfig string \<comment> \<open>\<^verbatim>\<open>su -c 'echo {b64} | base64 -d > {TUNNEL_CONFIG}'\<close>, with the decoded text\<close>
  | SysctlAll \<comment> \<open>\<^verbatim>\<open>su -c 'sysctl -w net.ipv4.conf.all.rp_filter=0 2>/dev/null'\<close>\<close>
  | SysctlTun0 \<comment> \<open>\<^verbatim>\<open>su -c 'sysctl -w net.ipv4.conf.tun0.rp_filter=0 2>/dev/null'\<close>\<close>
  | StartDaemon \<comment> \<open>\<^verbatim>\<open>su -c 'nohup {TUNNEL_BIN} {TUNNEL_CONFIG} >/dev/null 2>&1 &'\<close>\<close>
  | IpLinkShowUp \<comment> \<open>\<^verbatim>\<open>su -c 'ip link show tun0 2>/dev/null && echo TUN0_UP'\<close>\<close>
  | KillZero string \<comment> \<open>\<^verbatim>\<open>su -c 'kill -0 $(head -1 {TUNNEL_PID}) && echo RUNNING || echo {word}'\<close>\<close>
  | IpLinkShow \<comment> \<open>\<^verbatim>\<open>ip link show tun0 2>/dev/null\<close>\<close>
  | HeadConfig \<comment> \<open>\<^verbatim>\<open>su -c 'head -50 {TUNNEL_CONFIG} 2>/dev/null'\<close>\<close>
  | KillPid \<comment> \<open>\<^verbatim>\<open>su -c 'kill $(head -1 {TUNNEL_PID} 2>/dev/null) 2>/dev/null; true'\<close>\<close>
  | RmFiles \<comment> \<open>\<^verbatim>\<open>su -c 'rm -f {TUNNEL_PID} {TUNNEL_CONFIG} 2>/dev/null'\<close>\<close>
  | IptablesDelJump \<comment> \<open>\<^verbatim>\<open>su -c 'iptables -D OUTPUT -j JORK_KS 2>/dev/null; true'\<close>\<close>
  | IptablesFlush \<comment> \<open>\<^verbatim>\<open>su -c 'iptables -F JORK_KS 2>/dev/null; true'\<close>\<close>
  | IptablesDelChain \<comment> \<open>\<^verbatim>\<open>su -c 'iptables -X JORK_KS 2>/dev/null; true'\<close>\<close>
  | GetpropBoot \<comment> \<open>\<^verbatim>\<open>getprop sys.boot_completed\<close>\<close>

text \<open>
  What the code reaches outside itself, over a world state \<open>'w\<close> that the calls thread
  through: the shell channel to the device with a given serial, \<^verbatim>\<open>adb push\<close> of the
  tunnel binary (\<open>True\<close> for return code 0; a non-zero code and an exception are both
  retried by the caller), \<^verbatim>\<open>randomize_instances._patch_geo_from_ip\<close> (\<open>True\<close> for a
  non-empty result; \<^verbatim>\<open>None\<close> and an exception both lead to the next try),
  \<^verbatim>\<open>os.path.isfile\<close> of the bundled binary, and the two resolver calls of the socket
  library with all their outcomes (see \<open>aton_outcome\<close> and \<open>dns_outcome\<close>).
  \<^verbatim>\<open>time.sleep\<close> changes nothing the model holds and is left out. A call that cannot
  even launch \<^verbatim>\<open>adb\<close> raises in the source; the channel here always returns a result.
\<close>

text \<open>
  \<^verbatim>\<open>socket.inet_aton(hostname)\<close> returns for an address literal, raises \<^verbatim>\<open>OSError\<close>
  (\<^verbatim>\<open>socket.error\<close>) for a text that is none, and raises another exception for a
  text it does not take at all (\<^verbatim>\<open>ValueError\<close> for an embedded NUL).
  \<^verbatim>\<open>socket.gethostbyname(hostname)\<close> returns an address, raises \<^verbatim>\<open>socket.gaierror\<close> when
  the lookup fails, and raises another exception when the name cannot be encoded for
  the lookup (\<^verbatim>\<open>UnicodeError\<close> for an empty label or one of more than 63 characters).
\<close>

datatype aton_outcome = IsLiteral | NotLiteral | AtonRaises

datatype dns_outcome = Resolved string | GaiError | DnsRaises

record 'w host =
  adb_shell :: "string \<Rightarrow> cmd \<Rightarrow> 'w \<Rightarrow> completed_process \<times> 'w"
  adb_push :: "string \<Rightarrow> 'w \<Rightarrow> bool \<times> 'w"
  patch_geo :: "string \<Rightarrow> 'w \<Rightarrow> bool \<times> 'w"
  local_bin :: bool
  inet_aton :: "string \<Rightarrow> aton_outcome"
  gethostbyname :: "string \<Rightarrow> dns_outcome"

text \<open>A run of shell commands whose results the source ignores.\<close>

fun run_cmds :: "'w host \<Rightarrow> string \<Rightarrow> cmd list \<Rightarrow> 'w \<Rightarrow> 'w" where
  "run_cmds H serial [] w = w"
| "run_cmds H serial (c # cs) w = run_cmds H serial cs (snd (adb_shell H serial c w))"

section \<open>Routing and tunnel lifecycle\<close>

definition split_low :: route where
  "split_low = Route ''0.0.0.0/1'' None ''tun0''"

definition split_high :: route where
  "split_high = Route ''128.0.0.0/1'' None ''tun0''"

definition default_gw :: route where
  "default_gw = Route ''default'' (Some ''10.0.2.2'') ''eth0''"

text \<open>\<^verbatim>\<open>{server_ip}/32 via 10.0.2.2 dev eth0\<close>\<close>

definition host_route :: "string \<Rightarrow> route" where
  "host_route ip = Route (ip @ ''/32'') (Some ''10.0.2.2'') ''eth0''"

definition rule_mark :: rule where
  "rule_mark = Rule (Some TUNNEL_MARK) ''eth0'' 9000"

definition rule_main :: rule where
  "rule_main = Rule None ''main'' 9500"

text \<open>The command list of \<^verbatim>\<open>_cleanup_routing\<close>, lines 262-275, in its order.\<close>

definition cleanup_cmds :: "cmd list" where
  "cleanup_cmds =
     [IpRouteDel split_low,
      IpRouteDel split_high,
      IpRuleDel rule_mark,
      IpRuleDel rule_main,
      IpRuleDel (Rule None (str_int TUNNEL_TABLE) 20),
      IpRuleDel (Rule None (str_int TUNNEL_TABLE) 14000),
      IpRuleDel (Rule (Some TUNNEL_MARK) ''main'' 10),
      IpRouteFlush TUNNEL_TABLE]"

definition cleanup_routing :: "'w host \<Rightarrow> string \<Rightarrow> 'w \<Rightarrow> 'w" where
  "cleanup_routing H serial w = run_cmds H serial cleanup_cmds w"

text \<open>
  \<^verbatim>\<open>_resolve_host\<close>, lines 279-292. The first \<^verbatim>\<open>try\<close> catches \<^verbatim>\<open>socket.error\<close> only and
  the second \<^verbatim>\<open>socket.gaierror\<close> only; \<open>None\<close> is any other exception, which leaves the
  function.
\<close>

definition resolve_host :: "'w host \<Rightarrow> string \<Rightarrow> string option" where
  "resolve_host H hostname =
     (case inet_aton H hostname of
        IsLiteral \<Rightarrow> Some hostname
      | AtonRaises \<Rightarrow> None
      | NotLiteral \<Rightarrow>
          (case gethostbyname H hostname of
             Resolved ip \<Rightarrow> Some ip
           | GaiError \<Rightarrow> Some hostname
           | DnsRaises \<Rightarrow> None))"

text \<open>The push loop of \<^verbatim>\<open>_ensure_binary\<close>: \<open>n\<close> tries left; \<open>False\<close> is the loop's \<^verbatim>\<open>else\<close>.\<close>

fun push_retry :: "'w host \<Rightarrow> string \<Rightarrow> nat \<Rightarrow> 'w \<Rightarrow> bool \<times> 'w" where
  "push_retry H serial 0 w = (False, w)"
| "push_retry H serial (Suc n) w =
     (case adb_push H serial w of
        (True, w') \<Rightarrow> (True, w')
      | (False, w') \<Rightarrow> push_retry H serial n w')"

definition ensure_binary :: "'w host \<Rightarrow> string \<Rightarrow> 'w \<Rightarrow> bool \<times> 'w" where
  "ensure_binary H serial w =
     (case adb_shell H serial TestBin w of (cp, w1) \<Rightarrow>
        if returncode cp = 0 \<and> sublist ''OK'' (stdout cp) then (True, w1)
        else if \<not> local_bin H then (False, w1)
        else (case push_retry H serial 3 w1 of
                (False, w2) \<Rightarrow> (False, w2)
              | (True, w2) \<Rightarrow> (True, snd (adb_shell H serial ChmodBin w2))))"

text \<open>Step 8 of \<^verbatim>\<open>write_proxy_config\<close>: poll for the interface, \<open>n\<close> tries left.\<close>

fun wait_tun0 :: "'w host \<Rightarrow> string \<Rightarrow> nat \<Rightarrow> 'w \<Rightarrow> bool \<times> 'w" where
  "wait_tun0 H serial 0 w = (False, w)"
| "wait_tun0 H serial (Suc n) w =
     (case adb_shell H serial IpLinkShowUp w of (tun_check, w') \<Rightarrow>
        if sublist ''TUN0_UP'' (stdout tun_check) then (True, w')
        else wait_tun0 H serial n w')"

text \<open>The geo patch loop at the end of \<^verbatim>\<open>write_proxy_config\<close>, \<open>n\<close> tries left.\<close>

fun geo_retry :: "'w host \<Rightarrow> string \<Rightarrow> nat \<Rightarrow> 'w \<Rightarrow> 'w" where
  "geo_retry H serial 0 w = w"
| "geo_retry H serial (Suc n) w =
     (case patch_geo H serial w of
        (True, w') \<Rightarrow> w'
      | (False, w') \<Rightarrow> geo_retry H serial n w')"

text \<open>
  How an operation ends: with the result dict \<^verbatim>\<open>{"ok": True}\<close> or
  \<^verbatim>\<open>{"ok": False, "error": ...}\<close>, or with an exception that leaves it (\<open>Raised\<close>).
\<close>

datatype op_result = Success | Failure (error: string) | Raised

text \<open>
  The message of the failed start check; the dash of the source text is the three
  bytes of U+2014.
\<close>

definition daemon_failed_msg :: string where
  "daemon_failed_msg =
     ''Tunnel daemon failed to start '' @ [CHR 0xE2, CHR 0x80, CHR 0x94]
     @ '' check proxy credentials''"

text \<open>
  \<^verbatim>\<open>write_proxy_config\<close>, lines 295-460; the step numbers are those of its comments.
  The call of \<^verbatim>\<open>_resolve_host\<close> in line 317 is inside no \<^verbatim>\<open>try\<close>: what it raises leaves
  \<^verbatim>\<open>write_proxy_config\<close> before any command is sent.
\<close>

definition write_proxy_config ::
  "'w host \<Rightarrow> string \<Rightarrow> string \<Rightarrow> int \<Rightarrow> string \<Rightarrow> string \<Rightarrow> 'w \<Rightarrow> op_result \<times> 'w" where
  "write_proxy_config H serial server port username password w =
     (case resolve_host H server of
        None \<Rightarrow> (Raised, w)
      | Some server_ip \<Rightarrow>
      case ensure_binary H serial w of
        (False, w1) \<Rightarrow> (Failure ''Failed to push tunnel binary to device'', w1)
      | (True, w1) \<Rightarrow>
          let w2 = snd (adb_shell H serial KillPkill w1);
              \<comment> \<open>3: old routing and stale interface\<close>
              w3 = cleanup_routing H serial w2;
              w4 = snd (adb_shell H serial IpLinkDelete w3);
              \<comment> \<open>4: default gateway\<close>
              w5 = snd (adb_shell H serial (IpRouteAdd default_gw) w4);
              \<comment> \<open>5: descriptor\<close>
              yaml_content = build_tunnel_config server_ip port username password
          in case adb_shell H serial (WriteConfig yaml_content) w5 of (cp, w6) \<Rightarrow>
            if returncode cp \<noteq> 0
            then (Failure (''Failed to write config: '' @ strip (stderr cp)), w6)
            else
              let \<comment> \<open>6, 7: rp_filter, start the daemon\<close>
                  w7 = run_cmds H serial [SysctlAll, StartDaemon] w6;
                  \<comment> \<open>8: wait for the interface, proceed either way\<close>
                  w8 = snd (wait_tun0 H serial 10 w7);
                  \<comment> \<open>9 to 12: rp_filter, proxy host route, split routes, rules\<close>
                  w9 = run_cmds H serial
                         [SysctlTun0,
                          IpRouteAdd (host_route server_ip),
                          IpRouteAdd split_low,
                          IpRouteAdd split_high,
                          IpRuleAdd rule_mark,
                          IpRuleAdd rule_main] w8
              in case adb_shell H serial (KillZero ''DEAD'') w9 of (cp_verify, w10) \<Rightarrow>
                if \<not> sublist ''RUNNING'' (stdout cp_verify)
                then (Failure daemon_failed_msg, cleanup_routing H serial w10)
                else (Success, geo_retry H serial 3 w10))"

section \<open>Reading the descriptor back\<close>

text \<open>
  \<^verbatim>\<open>re.search(r"KEY\s*'?([^'\n]+)", text)\<close> for the keys \<^verbatim>\<open>address:\<close>, \<^verbatim>\<open>username:\<close>
  and \<^verbatim>\<open>password:\<close>. \<open>group_at\<close> matches \<^verbatim>\<open>'?([^'\n]+)\<close> at the head of a text: the
  quote is taken first and given back when the group then finds no character.
  \<open>ws_backtrack\<close> is the greedy \<^verbatim>\<open>\s*\<close>: it starts behind the whole run of white space
  and gives characters back one at a time. \<open>search_key\<close> returns group 1 of the leftmost
  match.
\<close>

definition not_q :: "char \<Rightarrow> bool" where
  "not_q c \<longleftrightarrow> c \<noteq> sq \<and> c \<noteq> nl"

definition group_at :: "string \<Rightarrow> string option" where
  "group_at s =
     (case s of
        [] \<Rightarrow> None
      | c # r \<Rightarrow>
          if c = sq \<and> takeWhile not_q r \<noteq> [] then Some (takeWhile not_q r)
          else if takeWhile not_q s \<noteq> [] then Some (takeWhile not_q s)
          else None)"

fun ws_backtrack :: "nat \<Rightarrow> string \<Rightarrow> string option" where
  "ws_backtrack 0 s = group_at s"
| "ws_backtrack (Suc k) s =
     (case group_at (drop (Suc k) s) of
        Some g \<Rightarrow> Some g
      | None \<Rightarrow> ws_backtrack k s)"

definition match_value :: "string \<Rightarrow> string option" where
  "match_value s = ws_backtrack (length (takeWhile is_space s)) s"

fun search_key :: "string \<Rightarrow> string \<Rightarrow> string option" where
  "search_key key [] = None"
| "search_key key (c # cs) =
     (if prefix key (c # cs) then
        (case match_value (drop (length key) (c # cs)) of
           Some g \<Rightarrow> Some g
         | None \<Rightarrow> search_key key cs)
      else search_key key cs)"

text \<open>
  \<^verbatim>\<open>re.search(r"^\s*port:\s*(\d+)", text, re.MULTILINE)\<close>: \<open>port_at\<close> matches behind a
  \<^verbatim>\<open>^\<close>, and \<open>search_port_from\<close> tries every line start from the left (the flag tells
  whether the position is one). \<open>is_digit\<close> is \<^verbatim>\<open>\d\<close> on ASCII text.
\<close>

definition is_digit :: "char \<Rightarrow> bool" where
  "is_digit c \<longleftrightarrow> c \<in> set ''0123456789''"

definition port_at :: "string \<Rightarrow> string option" where
  "port_at s =
     (let r = dropWhile is_space s in
      if prefix ''port:'' r then
        (let d = takeWhile is_digit (dropWhile is_space (drop 5 r)) in
         if d \<noteq> [] then Some d else None)
      else None)"

fun search_port_from :: "bool \<Rightarrow> string \<Rightarrow> string option" where
  "search_port_from b [] = None"
| "search_port_from b (c # cs) =
     (case (if b then port_at (c # cs) else None) of
        Some d \<Rightarrow> Some d
      | None \<Rightarrow> search_port_from (c = nl) cs)"

definition search_port :: "string \<Rightarrow> string option" where
  "search_port text = search_port_from True text"

section \<open>Status reader and disconnect\<close>

datatype tunnel_state = Stopped | Reconnecting | Connected | Unknown

record vpn_status =
  state :: tunnel_state
  vs_server :: string

text \<open>The \<^verbatim>\<open>server\<close> entry (field \<open>vs_server\<close>) that lines 499-506 of \<^verbatim>\<open>read_vpn_status\<close> compute.\<close>

definition status_server :: "completed_process \<Rightarrow> string" where
  "status_server cp_conf =
     (if returncode cp_conf = 0 \<and> strip (stdout cp_conf) \<noteq> [] then
        (case search_key ''address:'' (stdout cp_conf) of
           None \<Rightarrow> []
         | Some g \<Rightarrow>
             let addr = strip g;
                 prt = (case search_port (stdout cp_conf) of None \<Rightarrow> [] | Some d \<Rightarrow> strip d)
             in if prt \<noteq> [] then addr @ '':'' @ prt else addr)
      else [])"

text \<open>\<^verbatim>\<open>read_vpn_status\<close>, lines 463-508.\<close>

definition read_vpn_status :: "'w host \<Rightarrow> string \<Rightarrow> 'w \<Rightarrow> vpn_status \<times> 'w" where
  "read_vpn_status H serial w =
     (case adb_shell H serial (KillZero ''STOPPED'') w of (cp_pid, w1) \<Rightarrow>
        let daemon_running = (returncode cp_pid = 0 \<and> sublist ''RUNNING'' (stdout cp_pid)) in
        case (if daemon_running then
                (case adb_shell H serial IpLinkShow w1 of (cp_tun, w') \<Rightarrow>
                   (if returncode cp_tun = 0 \<and> sublist ''tun0'' (stdout cp_tun)
                    then Connected else Reconnecting, w'))
              else (Stopped, w1)) of (st, w2) \<Rightarrow>
        case adb_shell H serial HeadConfig w2 of (cp_conf, w3) \<Rightarrow>
          (\<lparr>state = st, vs_server = status_server cp_conf\<rparr>, w3))"

text \<open>
  The dict of \<^verbatim>\<open>read_current_config\<close>, lines 511-544: a key is present when its
  pattern matched; the empty dict has no key.
\<close>

record current_config =
  cc_server :: "string option"
  cc_port :: "string option"
  cc_username :: "string option"
  cc_password :: "string option"

definition read_current_config :: "'w host \<Rightarrow> string \<Rightarrow> 'w \<Rightarrow> current_config \<times> 'w" where
  "read_current_config H serial w =
     (case adb_shell H serial HeadConfig w of (cp, w1) \<Rightarrow>
        if returncode cp \<noteq> 0 \<or> strip (stdout cp) = []
        then (\<lparr>cc_server = None, cc_port = None, cc_username = None, cc_password = None\<rparr>, w1)
        else
          (\<lparr>cc_server = map_option strip (search_key ''address:'' (stdout cp)),
            cc_port = map_option strip (search_port (stdout cp)),
            cc_username = map_option strip (search_key ''username:'' (stdout cp)),
            cc_password = map_option strip (search_key ''password:'' (stdout cp))\<rparr>, w1))"

text \<open>\<^verbatim>\<open>disconnect_vpn\<close>, lines 547-584.\<close>

definition disconnect_vpn :: "'w host \<Rightarrow> string \<Rightarrow> 'w \<Rightarrow> op_result \<times> 'w" where
  "disconnect_vpn H serial w =
     (case read_current_config H serial w of (config, w1) \<Rightarrow>
        let proxy_ip = (case cc_server config of None \<Rightarrow> [] | Some ip \<Rightarrow> ip);
            w2 = cleanup_routing H serial w1;
            w3 = (if proxy_ip \<noteq> []
                  then snd (adb_shell H serial (IpRouteDel (host_route proxy_ip)) w2)
                  else w2);
            w4 = run_cmds H serial [KillPid, RmFiles] w3
        in (Success, w4))"

text \<open>\<^verbatim>\<open>enable_kill_switch\<close> only prints; \<^verbatim>\<open>disable_kill_switch\<close> runs three commands.\<close>

definition enable_kill_switch :: "'w host \<Rightarrow> string \<Rightarrow> 'w \<Rightarrow> 'w" where
  "enable_kill_switch H serial w = w"

definition disable_kill_switch :: "'w host \<Rightarrow> string \<Rightarrow> 'w \<Rightarrow> 'w" where
  "disable_kill_switch H serial w =
     run_cmds H serial [IptablesDelJump, IptablesFlush, IptablesDelChain] w"

section \<open>The manager\<close>

text \<open>
  The registries of \<^verbatim>\<open>VPNManager.__init__\<close>, keyed by instance name. \<open>listener\<close> tells
  whether an \<^verbatim>\<open>on_status_change\<close> callback was given. A registered proxy configuration
  is the dict the poll loop reads with \<^verbatim>\<open>cfg["server"]\<close>, \<^verbatim>\<open>int(cfg["port"])\<close>,
  \<^verbatim>\<open>cfg.get("username", "")\<close> and \<^verbatim>\<open>cfg.get("password", "")\<close>: \<open>cfg_server\<close> is \<open>None\<close>
  where the key is missing and \<open>cfg_port\<close> where the key is missing or \<^verbatim>\<open>int\<close> raises.
\<close>

record proxy_config =
  cfg_server :: "string option"
  cfg_port :: "int option"
  cfg_username :: string
  cfg_password :: string

record manager =
  listener :: bool
  statuses :: "string \<rightharpoonup> vpn_status"
  always_on :: "string \<rightharpoonup> proxy_config"
  reconnect_state :: "string \<rightharpoonup> reconnect_entry"
  kill_switch :: "string set"
  boot_ready :: "string \<rightharpoonup> real"

definition new_manager :: "bool \<Rightarrow> manager" where
  "new_manager cb =
     \<lparr>listener = cb, statuses = Map.empty, always_on = Map.empty,
      reconnect_state = Map.empty, kill_switch = {}, boot_ready = Map.empty\<rparr>"

text \<open>
  What a manager operation lets the outside see: a call of the status callback, and the
  messages of the reconnect branch of the poll loop: "reconnecting", printed on entering
  the branch that calls \<^verbatim>\<open>apply_proxy\<close>, "reconnected", "reconnect failed" (or
  "reconnect exception") after it, and "gave up".
\<close>

datatype event =
    Notify string vpn_status
  | TryReconnect string
  | Reconnected string
  | ReconnectFailed string
  | LogGaveUp string

definition notify :: "manager \<Rightarrow> string \<Rightarrow> vpn_status \<Rightarrow> event list" where
  "notify M name st = (if listener M then [Notify name st] else [])"

text \<open>
  \<^verbatim>\<open>VPNManager.apply_proxy\<close>, lines 827-846. An exception of \<^verbatim>\<open>write_proxy_config\<close>
  leaves \<^verbatim>\<open>apply_proxy\<close> too, with the cache untouched.
\<close>

definition apply_proxy ::
  "'w host \<Rightarrow> manager \<Rightarrow> string \<Rightarrow> string \<Rightarrow> string \<Rightarrow> int \<Rightarrow> string \<Rightarrow> string \<Rightarrow> 'w
    \<Rightarrow> op_result \<times> event list \<times> manager \<times> 'w" where
  "apply_proxy H M instance_name serial server port username password w =
     (case write_proxy_config H serial server port username password w of (result, w1) \<Rightarrow>
        if result = Success then
          (let st = \<lparr>state = Reconnecting, vs_server = server @ '':'' @ str_int port\<rparr> in
           (result, notify M instance_name st,
            M\<lparr>statuses := (statuses M)(instance_name \<mapsto> st)\<rparr>, w1))
        else (result, [], M, w1))"

text \<open>\<^verbatim>\<open>VPNManager.disconnect\<close>, lines 875-899.\<close>

definition disconnect ::
  "'w host \<Rightarrow> manager \<Rightarrow> string \<Rightarrow> string \<Rightarrow> 'w \<Rightarrow> op_result \<times> event list \<times> manager \<times> 'w" where
  "disconnect H M instance_name serial w =
     (case disconnect_vpn H serial w of (result, w1) \<Rightarrow>
        let w2 = (if instance_name \<in> kill_switch M then disable_kill_switch H serial w1 else w1);
            st = \<lparr>state = Stopped, vs_server = []\<rparr>;
            M' = M\<lparr>kill_switch := kill_switch M - {instance_name},
                   always_on := (always_on M)(instance_name := None),
                   statuses := (statuses M)(instance_name \<mapsto> st)\<rparr>
        in (result, notify M instance_name st, M', w2))"

text \<open>
  \<^verbatim>\<open>VPNManager.set_always_on\<close>, lines 913-924; \<open>None\<close> stands for every falsy argument
  (\<^verbatim>\<open>None\<close> and the empty dict).
\<close>

definition set_always_on :: "manager \<Rightarrow> string \<Rightarrow> proxy_config option \<Rightarrow> manager" where
  "set_always_on M instance_name proxy_config =
     (case proxy_config of
        Some cfg \<Rightarrow> M\<lparr>always_on := (always_on M)(instance_name \<mapsto> cfg)\<rparr>
      | None \<Rightarrow> M\<lparr>always_on := (always_on M)(instance_name := None)\<rparr>)"

text \<open>\<^verbatim>\<open>VPNManager.set_kill_switch\<close>, lines 926-937.\<close>

definition set_kill_switch ::
  "'w host \<Rightarrow> manager \<Rightarrow> string \<Rightarrow> string \<Rightarrow> bool \<Rightarrow> 'w \<Rightarrow> manager \<times> 'w" where
  "set_kill_switch H M instance_name serial enabled w =
     (if enabled
      then (M\<lparr>kill_switch := insert instance_name (kill_switch M)\<rparr>, enable_kill_switch H serial w)
      else (M\<lparr>kill_switch := kill_switch M - {instance_name}\<rparr>, disable_kill_switch H serial w))"

text \<open>
  The reconnect branch of the poll loop, lines 767-808, entered with the freshly read
  status stored. \<open>now\<close> is the \<^verbatim>\<open>time.time()\<close> of line 770. A registered configuration
  that cannot be read raises inside the \<^verbatim>\<open>try\<close> of line 789 and is logged there, with
  the incremented entry left as it is; so is an exception of \<^verbatim>\<open>apply_proxy\<close>.
\<close>

definition reconnect_branch ::
  "'w host \<Rightarrow> manager \<Rightarrow> string \<Rightarrow> string \<Rightarrow> proxy_config \<Rightarrow> real \<Rightarrow> 'w
    \<Rightarrow> event list \<times> manager \<times> 'w" where
  "reconnect_branch H M name serial cfg now w =
     (let rs = (case reconnect_state M name of
                  None \<Rightarrow> \<lparr>last_attempt = 0, attempts = 0\<rparr>
                | Some r \<Rightarrow> r);
          dec = reconnect_decide rs now;
          M1 = (case snd dec of
                  None \<Rightarrow> M
                | Some r \<Rightarrow> M\<lparr>reconnect_state := (reconnect_state M)(name \<mapsto> r)\<rparr>)
      in if fst dec = GaveUp then ([LogGaveUp name], M1, w)
         else if fst dec = Attempt then
           (case (cfg_server cfg, cfg_port cfg) of
              (Some srv, Some prt) \<Rightarrow>
                (case apply_proxy H M1 name serial srv prt (cfg_username cfg) (cfg_password cfg) w
                 of (result, evs, M2, w1) \<Rightarrow>
                   if result = Success then
                     (TryReconnect name # evs @ [Reconnected name],
                      M2\<lparr>reconnect_state :=
                            (reconnect_state M2)(name \<mapsto> \<lparr>last_attempt = 0, attempts = 0\<rparr>)\<rparr>,
                      if name \<in> kill_switch M2 then enable_kill_switch H serial w1 else w1)
                   else (TryReconnect name # evs @ [ReconnectFailed name], M2, w1))
            | _ \<Rightarrow> ([TryReconnect name, ReconnectFailed name], M1, w))
         else ([], M1, w))"

text \<open>
  One pass of the \<^verbatim>\<open>for inst in instances\<close> body of \<^verbatim>\<open>_poll_loop\<close>, lines 717-812, for
  the instance \<open>(name, serial)\<close>. \<open>t_boot\<close> is the \<^verbatim>\<open>time.time()\<close> of lines 742 and 746,
  \<open>now\<close> that of line 770.
\<close>

definition poll_instance ::
  "'w host \<Rightarrow> manager \<Rightarrow> string \<Rightarrow> string \<Rightarrow> real \<Rightarrow> real \<Rightarrow> 'w \<Rightarrow> event list \<times> manager \<times> 'w" where
  "poll_instance H M name serial t_boot now w =
     (case adb_shell H serial GetpropBoot w of (boot_cp, w1) \<Rightarrow>
        if returncode boot_cp \<noteq> 0 \<or> \<not> sublist ''1'' (stdout boot_cp)
        then ([], M\<lparr>boot_ready := (boot_ready M)(name := None)\<rparr>, w1)
        else
          (case boot_ready M name of
             None \<Rightarrow> ([], M\<lparr>boot_ready := (boot_ready M)(name \<mapsto> t_boot)\<rparr>, w1)
           | Some t0 \<Rightarrow>
               if t_boot - t0 < 30 then ([], M, w1)
               else
                 (case read_vpn_status H serial w1 of (status, w2) \<Rightarrow>
                    let old = statuses M name;
                        M1 = M\<lparr>statuses := (statuses M)(name \<mapsto> status)\<rparr>;
                        ev = (if old \<noteq> Some status then notify M name status else [])
                    in case (if state status = Stopped then always_on M1 name else None) of
                         Some cfg \<Rightarrow>
                           (case reconnect_branch H M1 name serial cfg now w2
                            of (evs, M2, w3) \<Rightarrow> (ev @ evs, M2, w3))
                       | None \<Rightarrow>
                           if state status = Connected \<and> reconnect_state M1 name \<noteq> None then
                             (ev, M1\<lparr>reconnect_state := (reconnect_state M1)(name := None)\<rparr>, w2)
                           else (ev, M1, w2))))"

text \<open>
  The calls a manager receives one after the other: the caller's operations and the
  passes of the poll loop.
\<close>

datatype op =
    Apply string string string int string string
  | Disconnect string string
  | SetAlwaysOn string "proxy_config option"
  | SetKillSwitch string string bool
  | Poll string string real real

fun step :: "'w host \<Rightarrow> op \<Rightarrow> manager \<times> 'w \<Rightarrow> event list \<times> manager \<times> 'w" where
  "step H (Apply name serial srv prt usr pwd) (M, w) =
     snd (apply_proxy H M name serial srv prt usr pwd w)"
| "step H (Disconnect name serial) (M, w) = snd (disconnect H M name serial w)"
| "step H (SetAlwaysOn name cfg) (M, w) = ([], set_always_on M name cfg, w)"
| "step H (SetKillSwitch name serial en) (M, w) = ([], set_kill_switch H M name serial en w)"
| "step H (Poll name serial t_boot now) (M, w) = poll_instance H M name serial t_boot now w"

fun run_ops :: "'w host \<Rightarrow> op list \<Rightarrow> manager \<times> 'w \<Rightarrow> event list \<times> manager \<times> 'w" where
  "run_ops H [] (M, w) = ([], M, w)"
| "run_ops H (x # xs) (M, w) =
     (case step H x (M, w) of (evs, M', w') \<Rightarrow>
        case run_ops H xs (M', w') of (evs', Mw) \<Rightarrow> (evs @ evs', Mw))"

section \<open>A device behind the channel\<close>

text \<open>
  The state of one device as far as the commands above read or change it, and the
  effect each command has on it. \<open>daemon\<close> holds when the pid file names a live tunnel
  process, which is what \<^verbatim>\<open>kill -0 $(head -1 {TUNNEL_PID})\<close> probes; \<open>survives\<close> tells
  whether a daemon started on this device stays up (it exits when it cannot use its
  proxy). The kernel refuses a route that is already in the table and a route through
  an interface that does not exist, drops the routes of an interface with it, and adds
  a rule whether or not an equal one exists. Redirected commands ending in
  \<^verbatim>\<open>; true\<close> return 0 whatever happened.
\<close>

record device =
  bin_present :: bool
  config_file :: "string option"
  daemon :: bool
  survives :: bool
  tun0 :: bool
  routes :: "route list"
  rules :: "rule list"
  booted :: bool

definition cp_ok :: "string \<Rightarrow> completed_process" where
  "cp_ok out = \<lparr>returncode = 0, stdout = out, stderr = []\<rparr>"

definition cp_fail :: completed_process where
  "cp_fail = \<lparr>returncode = 1, stdout = [], stderr = []\<rparr>"

text \<open>\<^verbatim>\<open>head -n\<close>: the first \<open>n\<close> lines of a text.\<close>

fun head_lines :: "nat \<Rightarrow> string \<Rightarrow> string" where
  "head_lines 0 s = []"
| "head_lines (Suc n) s =
     (case dropWhile (\<lambda>c. c \<noteq> nl) s of
        [] \<Rightarrow> s
      | _ # r \<Rightarrow> takeWhile (\<lambda>c. c \<noteq> nl) s @ [nl] @ head_lines n r)"

fun dev_shell :: "cmd \<Rightarrow> device \<Rightarrow> completed_process \<times> device" where
  "dev_shell TestBin d = (if bin_present d then cp_ok (''OK'' @ [nl]) else cp_fail, d)"
| "dev_shell ChmodBin d = (cp_ok [], d)"
| "dev_shell KillPkill d = (cp_ok [], d\<lparr>daemon := False\<rparr>)"
| "dev_shell (IpRouteAdd r) d =
     (cp_ok [],
      if r \<in> set (routes d) \<or> (dev r = ''tun0'' \<and> \<not> tun0 d) then d
      else d\<lparr>routes := routes d @ [r]\<rparr>)"
| "dev_shell (IpRouteDel r) d = (cp_ok [], d\<lparr>routes := remove1 r (routes d)\<rparr>)"
| "dev_shell (IpRuleAdd r) d = (cp_ok [], d\<lparr>rules := rules d @ [r]\<rparr>)"
| "dev_shell (IpRuleDel r) d = (cp_ok [], d\<lparr>rules := remove1 r (rules d)\<rparr>)"
| "dev_shell (IpRouteFlush t) d = (cp_ok [], d)"
| "dev_shell IpLinkDelete d =
     (cp_ok [], d\<lparr>tun0 := False, routes := filter (\<lambda>r. dev r \<noteq> ''tun0'') (routes d)\<rparr>)"
| "dev_shell (WriteConfig text) d = (cp_ok [], d\<lparr>config_file := Some text\<rparr>)"
| "dev_shell SysctlAll d = (cp_ok [], d)"
| "dev_shell SysctlTun0 d = (if tun0 d then cp_ok [] else cp_fail, d)"
| "dev_shell StartDaemon d =
     (cp_ok [],
      if bin_present d \<and> config_file d \<noteq> None \<and> survives d
      then d\<lparr>daemon := True, tun0 := True\<rparr> else d)"
| "dev_shell IpLinkShowUp d =
     (if tun0 d then cp_ok (''5: tun0: <POINTOPOINT,UP,LOWER_UP>'' @ [nl] @ ''TUN0_UP'' @ [nl])
      else cp_fail, d)"
| "dev_shell (KillZero word) d =
     (cp_ok ((if daemon d then ''RUNNING'' else word) @ [nl]), d)"
| "dev_shell IpLinkShow d =
     (if tun0 d then cp_ok (''5: tun0: <POINTOPOINT,UP,LOWER_UP>'' @ [nl]) else cp_fail, d)"
| "dev_shell HeadConfig d =
     (case config_file d of
        None \<Rightarrow> (cp_fail, d)
      | Some text \<Rightarrow> (cp_ok (head_lines 50 text), d))"
| "dev_shell KillPid d = (cp_ok [], d\<lparr>daemon := False\<rparr>)"
| "dev_shell RmFiles d = (cp_ok [], d\<lparr>daemon := False, config_file := None\<rparr>)"
| "dev_shell IptablesDelJump d = (cp_ok [], d)"
| "dev_shell IptablesFlush d = (cp_ok [], d)"
| "dev_shell IptablesDelChain d = (cp_ok [], d)"
| "dev_shell GetpropBoot d = (cp_ok ((if booted d then ''1'' else []) @ [nl]), d)"

text \<open>
  The host over a world of such devices, one per serial. \<open>lit\<close> and \<open>dns\<close> are the two
  resolver calls; the bundled binary is there, a push succeeds and puts it on the
  device, and the geo patch succeeds without touching what the model holds.
\<close>

definition dev_host ::
  "(string \<Rightarrow> aton_outcome) \<Rightarrow> (string \<Rightarrow> dns_outcome) \<Rightarrow> (string \<Rightarrow> device) host" where
  "dev_host lit dns =
     \<lparr>adb_shell = (\<lambda>serial c w. case dev_shell c (w serial) of (cp, d) \<Rightarrow> (cp, w(serial := d))),
      adb_push = (\<lambda>serial w. (True, w(serial := (w serial)\<lparr>bin_present := True\<rparr>))),
      patch_geo = (\<lambda>serial w. (True, w)),
      local_bin = True,
      inet_aton = lit,
      gethostbyname = dns\<rparr>"

text \<open>
  The device after a list of commands, and the commands \<^verbatim>\<open>write_proxy_config\<close> sends
  between the binary check and the start check that change a device (the interface
  poll of step 8 only reads).
\<close>

definition dev_run :: "cmd list \<Rightarrow> device \<Rightarrow> device" where
  "dev_run cs d = fold (\<lambda>c d. snd (dev_shell c d)) cs d"

definition apply_cmds :: "string \<Rightarrow> string \<Rightarrow> cmd list" where
  "apply_cmds ip yaml =
     KillPkill # cleanup_cmds
     @ [IpLinkDelete, IpRouteAdd default_gw, WriteConfig yaml, SysctlAll, StartDaemon,
        SysctlTun0, IpRouteAdd (host_route ip), IpRouteAdd split_low, IpRouteAdd split_high,
        IpRuleAdd rule_mark, IpRuleAdd rule_main]"

text \<open>
  A booted device with the tunnel binary in place, no tunnel and only its default
  route; \<open>stays_up\<close> tells whether a daemon started on it survives.
\<close>

definition idle_device :: "bool \<Rightarrow> device" where
  "idle_device stays_up =
     \<lparr>bin_present = True, config_file = None, daemon = False, survives = stays_up,
      tun0 = False, routes = [default_gw], rules = [], booted = True\<rparr>"

text \<open>The host for which every server text is an address literal.\<close>

definition literal_host :: "(string \<Rightarrow> device) host" where
  "literal_host = dev_host (\<lambda>_. IsLiteral) (\<lambda>_. GaiError)"

text \<open>
  A host that resolves nothing: no text is an address literal, every lookup fails, and
  the lookup of a name with two dots in a row, which has an empty label, fails in the
  encoding of the name.
\<close>

definition unresolving_host :: "(string \<Rightarrow> device) host" where
  "unresolving_host =
     dev_host (\<lambda>_. NotLiteral) (\<lambda>h. if sublist ''..'' h then DnsRaises else GaiError)"

text \<open>Two registered proxy configurations without credentials.\<close>

definition cfg1 :: proxy_config where
  "cfg1 = \<lparr>cfg_server = Some ''10.0.0.1'', cfg_port = Some 1080, cfg_username = [], cfg_password = []\<rparr>"

definition cfg9 :: proxy_config where
  "cfg9 = \<lparr>cfg_server = Some ''10.0.0.9'', cfg_port = Some 1080, cfg_username = [], cfg_password = []\<rparr>"

text \<open>A channel that writes down every command it passes on.\<close>

definition logged :: "'w host \<Rightarrow> ('w \<times> cmd list) host" where
  "logged H =
     \<lparr>adb_shell = (\<lambda>serial c (w, tr). case adb_shell H serial c w of (cp, w') \<Rightarrow> (cp, (w', tr @ [c]))),
      adb_push = (\<lambda>serial (w, tr). case adb_push H serial w of (b, w') \<Rightarrow> (b, (w', tr))),
      patch_geo = (\<lambda>serial (w, tr). case patch_geo H serial w of (b, w') \<Rightarrow> (b, (w', tr))),
      local_bin = local_bin H,
      inet_aton = inet_aton H,
      gethostbyname = gethostbyname H\<rparr>"

section \<open>Properties of the reconnect policy\<close>

lemma reconnect_delay_mono: "n \<le> m \<Longrightarrow> reconnect_delay n \<le> reconnect_delay m"
proof -
  assume "n \<le> m"
  then have "(2::int) ^ n \<le> 2 ^ m"
    by (simp add: power_increasing)
  then show ?thesis
    by (simp add: reconnect_delay_def RECONNECT_BASE_DELAY_def min_le_iff_disj)
qed

lemma reconnect_delay_le_max: "reconnect_delay n \<le> RECONNECT_MAX_DELAY"
  by (simp add: reconnect_delay_def)

lemma reconnect_delay_capped:
  assumes "reconnect_delay n = RECONNECT_MAX_DELAY" and "n \<le> m"
  shows "reconnect_delay m = RECONNECT_MAX_DELAY"
proof -
  have "reconnect_delay n \<le> reconnect_delay m"
    using assms(2) by (rule reconnect_delay_mono)
  with assms(1) reconnect_delay_le_max [of m] show ?thesis
    by simp
qed

lemma run_policy_past_max:
  "RECONNECT_MAX_ATTEMPTS < attempts rs \<Longrightarrow> set (run_policy rs ts) \<subseteq> {Silent}"
  by (induction ts) (auto simp: reconnect_decide_def)

lemma run_policy_at_max:
  assumes "attempts rs = RECONNECT_MAX_ATTEMPTS"
  shows "run_policy rs (t # ts) = GaveUp # replicate (length ts) Silent"
proof -
  let ?rs' = "rs\<lparr>attempts := attempts rs + 1\<rparr>"
  have "set (run_policy ?rs' ts) \<subseteq> {Silent}"
    using assms by (intro run_policy_past_max) simp
  moreover have "length (run_policy r ts) = length ts" for r
    by (induction ts arbitrary: r) (auto split: prod.splits option.splits)
  ultimately have "run_policy ?rs' ts = replicate (length ts) Silent"
    by (metis replicate_eqI singletonD subsetD)
  then show ?thesis
    using assms by (simp add: reconnect_decide_def)
qed

lemma count_list_replicate_other: "x \<noteq> y \<Longrightarrow> count_list (replicate n x) y = 0"
  by (induction n) simp_all

lemma run_policy_gave_up_once:
  "attempts rs \<le> RECONNECT_MAX_ATTEMPTS \<Longrightarrow> count_list (run_policy rs ts) GaveUp \<le> 1"
proof (induction ts arbitrary: rs)
  case Nil
  then show ?case by simp
next
  case (Cons t ts)
  show ?case
  proof (cases "attempts rs = RECONNECT_MAX_ATTEMPTS")
    case True
    then show ?thesis
      by (simp add: run_policy_at_max count_list_replicate_other del: run_policy.simps)
  next
    case False
    with Cons.prems have lt: "attempts rs < RECONNECT_MAX_ATTEMPTS" by simp
    from lt Cons.IH [of "rs\<lparr>last_attempt := t, attempts := attempts rs + 1\<rparr>"] Cons.IH [of rs]
    show ?thesis
      by (auto simp: reconnect_decide_def Let_def)
  qed
qed

text \<open>
  Claim C3. The delay is \<open>min (base * 2 ^ attempts) max\<close>; it never decreases as the
  attempt count grows and stays at the cap once it reached it. A reconnect is attempted
  exactly when the attempt count is below the maximum and the delay has elapsed since
  the last attempt; attempting increments the count and records the time. From the
  maximum on, no cycle attempts a reconnect again, and over any run of failing cycles
  the give-up is reported at most once: exactly once, by the first cycle that finds the
  count at the maximum.
\<close>

theorem reconnect_policy:
  "reconnect_delay n = min (RECONNECT_BASE_DELAY * 2 ^ n) RECONNECT_MAX_DELAY
   \<and> (n \<le> m \<longrightarrow> reconnect_delay n \<le> reconnect_delay m)
   \<and> (n \<le> m \<longrightarrow> reconnect_delay n = RECONNECT_MAX_DELAY \<longrightarrow> reconnect_delay m = RECONNECT_MAX_DELAY)
   \<and> (fst (reconnect_decide rs now) = Attempt \<longleftrightarrow>
        attempts rs < RECONNECT_MAX_ATTEMPTS
        \<and> now - last_attempt rs \<ge> real_of_int (reconnect_delay (attempts rs)))
   \<and> (fst (reconnect_decide rs now) = Attempt \<longrightarrow>
        snd (reconnect_decide rs now) = Some \<lparr>last_attempt = now, attempts = attempts rs + 1\<rparr>)
   \<and> (RECONNECT_MAX_ATTEMPTS \<le> attempts gs \<longrightarrow> Attempt \<notin> set (run_policy gs ts))
   \<and> (attempts gs \<le> RECONNECT_MAX_ATTEMPTS \<longrightarrow> count_list (run_policy gs ts) GaveUp \<le> 1)
   \<and> (attempts gs = RECONNECT_MAX_ATTEMPTS \<longrightarrow> ts \<noteq> [] \<longrightarrow>
        count_list (run_policy gs ts) GaveUp = 1 \<and> hd (run_policy gs ts) = GaveUp)"
proof (intro conjI impI)
  show "reconnect_delay n = min (RECONNECT_BASE_DELAY * 2 ^ n) RECONNECT_MAX_DELAY"
    by (simp add: reconnect_delay_def)
  show "reconnect_delay n \<le> reconnect_delay m" if "n \<le> m"
    using that by (rule reconnect_delay_mono)
  show "reconnect_delay m = RECONNECT_MAX_DELAY"
    if "n \<le> m" "reconnect_delay n = RECONNECT_MAX_DELAY"
    using that reconnect_delay_capped by blast
  show "fst (reconnect_decide rs now) = Attempt \<longleftrightarrow>
        attempts rs < RECONNECT_MAX_ATTEMPTS
        \<and> now - last_attempt rs \<ge> real_of_int (reconnect_delay (attempts rs))"
    by (auto simp: reconnect_decide_def Let_def)
  show "snd (reconnect_decide rs now) = Some \<lparr>last_attempt = now, attempts = attempts rs + 1\<rparr>"
    if "fst (reconnect_decide rs now) = Attempt"
    using that by (auto simp: reconnect_decide_def Let_def split: if_splits)
  show "Attempt \<notin> set (run_policy gs ts)" if "RECONNECT_MAX_ATTEMPTS \<le> attempts gs"
  proof (cases "attempts gs = RECONNECT_MAX_ATTEMPTS")
    case True
    then show ?thesis
      by (cases ts) (simp_all add: run_policy_at_max del: run_policy.simps(2))
  next
    case False
    with that have "RECONNECT_MAX_ATTEMPTS < attempts gs" by simp
    from run_policy_past_max [OF this, of ts] show ?thesis by auto
  qed
  show "count_list (run_policy gs ts) GaveUp \<le> 1" if "attempts gs \<le> RECONNECT_MAX_ATTEMPTS"
    using that by (rule run_policy_gave_up_once)
  show "count_list (run_policy gs ts) GaveUp = 1"
    if "attempts gs = RECONNECT_MAX_ATTEMPTS" "ts \<noteq> []"
    using that by (cases ts) (simp_all add: run_policy_at_max count_list_replicate_other del: run_policy.simps(2))
  show "hd (run_policy gs ts) = GaveUp"
    if "attempts gs = RECONNECT_MAX_ATTEMPTS" "ts \<noteq> []"
    using that by (cases ts) (simp_all add: run_policy_at_max del: run_policy.simps(2))
qed

theorem reconnect_policy_witness:
  "reconnect_delay 5 \<le> reconnect_delay 6
   \<and> reconnect_delay 6 = 300
   \<and> fst (reconnect_decide \<lparr>last_attempt = 0, attempts = 3\<rparr> 100) = Attempt
   \<and> snd (reconnect_decide \<lparr>last_attempt = 0, attempts = 3\<rparr> 100)
       = Some \<lparr>last_attempt = 100, attempts = 4\<rparr>
   \<and> Attempt \<notin> set (run_policy \<lparr>last_attempt = 50, attempts = 10\<rparr> [400, 405, 410])
   \<and> count_list (run_policy \<lparr>last_attempt = 50, attempts = 10\<rparr> [400, 405, 410]) GaveUp = 1"
  using reconnect_policy [of 5 6 "\<lparr>last_attempt = 0, attempts = 3\<rparr>" 100
      "\<lparr>last_attempt = 50, attempts = 10\<rparr>" "[400, 405, 410]"]
  by (simp add: reconnect_delay_def RECONNECT_BASE_DELAY_def RECONNECT_MAX_DELAY_def
      RECONNECT_MAX_ATTEMPTS_def)

section \<open>The channel over the device model\<close>

lemma dev_adb_shell:
  "adb_shell (dev_host lit dns) serial c w
   = (fst (dev_shell c (w serial)), w(serial := snd (dev_shell c (w serial))))"
  by (simp add: dev_host_def split: prod.splits)

lemma dev_host_sel:
  "inet_aton (dev_host lit dns) = lit"
  "gethostbyname (dev_host lit dns) = dns"
  "local_bin (dev_host lit dns) = True"
  "patch_geo (dev_host lit dns) serial w = (True, w)"
  by (simp_all add: dev_host_def)

lemma dev_run_cmds: "run_cmds (dev_host lit dns) serial cs w = w(serial := dev_run cs (w serial))"
  by (induction cs arbitrary: w) (simp_all add: dev_run_def dev_adb_shell)

lemma dev_run_append: "dev_run cs (dev_run cs' d) = dev_run (cs' @ cs) d"
  by (simp add: dev_run_def)

lemma dev_snd_shell:
  "snd (adb_shell (dev_host lit dns) serial c w) = w(serial := dev_run [c] (w serial))"
  by (simp add: dev_adb_shell dev_run_def)

lemma dev_wait_tun0:
  "wait_tun0 (dev_host lit dns) serial n w = (0 < n \<and> tun0 (w serial), w)"
  by (induction n) (auto simp: dev_adb_shell cp_ok_def cp_fail_def sublist_code)

lemma dev_geo_retry: "geo_retry (dev_host lit dns) serial (Suc n) w = w"
  by (simp add: dev_host_def)

lemma dev_ensure_binary:
  "bin_present (w serial) \<Longrightarrow> ensure_binary (dev_host lit dns) serial w = (True, w)"
  by (simp add: ensure_binary_def dev_adb_shell cp_ok_def sublist_code)

lemma dev_cleanup_routing:
  "cleanup_routing (dev_host lit dns) serial w = w(serial := dev_run cleanup_cmds (w serial))"
  by (simp add: cleanup_routing_def dev_run_cmds)

lemma dev_write_rc:
  "adb_shell (dev_host lit dns) serial (WriteConfig y) w
   = (cp_ok [], w(serial := dev_run [WriteConfig y] (w serial)))"
  by (simp add: dev_adb_shell dev_run_def)

lemma dev_verify:
  "adb_shell (dev_host lit dns) serial (KillZero word) w
   = (cp_ok ((if daemon (w serial) then ''RUNNING'' else word) @ [nl]), w)"
  by (simp add: dev_adb_shell)

lemma running_in:
  "sublist ''RUNNING'' (stdout (cp_ok ((if b then ''RUNNING'' else ''DEAD'') @ [nl]))) = b"
  "sublist ''RUNNING'' (stdout (cp_ok ((if b then ''RUNNING'' else ''STOPPED'') @ [nl]))) = b"
  by (simp_all add: cp_ok_def sublist_code nl_def)

lemma dev_write_proxy_config:
  assumes "bin_present (w serial)"
    and "resolve_host (dev_host lit dns) server = Some ip"
  shows "write_proxy_config (dev_host lit dns) serial server port u p w =
    (let d9 = dev_run (apply_cmds ip (build_tunnel_config ip port u p)) (w serial)
     in if daemon d9 then (Success, w(serial := d9))
        else (Failure daemon_failed_msg, w(serial := dev_run cleanup_cmds d9)))"
  unfolding write_proxy_config_def assms(2) option.case
    dev_ensure_binary [of w serial, OF assms(1)]
  apply (simp only: prod.case bool.case dev_snd_shell dev_cleanup_routing dev_run_cmds dev_write_rc
      fun_upd_same fun_upd_upd dev_run_append Let_def dev_wait_tun0 snd_conv)
  apply (simp only: cp_ok_def completed_process.simps if_False simp_thms dev_verify prod.case
      running_in [unfolded cp_ok_def] fun_upd_same fun_upd_upd dev_cleanup_routing dev_geo_retry
      numeral_3_eq_3 append.simps apply_cmds_def)
  apply (simp add: Let_def dev_run_append sublist_code nl_def)
  done

lemma literal_resolve: "resolve_host literal_host h = Some h"
  by (simp add: resolve_host_def literal_host_def dev_host_sel)

lemma str_table: "str_int TUNNEL_TABLE = ''20''"
  by (simp add: str_int_def TUNNEL_TABLE_def str_nat.simps)

lemmas route_defs = split_low_def split_high_def default_gw_def host_route_def rule_mark_def
  rule_main_def TUNNEL_MARK_def

lemma dev_link_show:
  "adb_shell (dev_host lit dns) serial IpLinkShow w
   = (if tun0 (w serial) then cp_ok (''5: tun0: <POINTOPOINT,UP,LOWER_UP>'' @ [nl]) else cp_fail, w)"
  by (simp add: dev_adb_shell)

lemma dev_head_config:
  "adb_shell (dev_host lit dns) serial HeadConfig w = (fst (dev_shell HeadConfig (w serial)), w)"
  by (simp add: dev_adb_shell split: option.splits)

lemma dev_getprop:
  "adb_shell (dev_host lit dns) serial GetpropBoot w
   = (cp_ok ((if booted (w serial) then ''1'' else []) @ [nl]), w)"
  by (simp add: dev_adb_shell)

lemma dev_read_vpn_status:
  "read_vpn_status (dev_host lit dns) serial w =
     (\<lparr>state = (if daemon (w serial) then (if tun0 (w serial) then Connected else Reconnecting)
                 else Stopped),
       vs_server = status_server (fst (dev_shell HeadConfig (w serial)))\<rparr>, w)"
proof -
  have tun: "(returncode (if b then cp_ok (''5: tun0: <POINTOPOINT,UP,LOWER_UP>'' @ [nl]) else cp_fail) = 0
       \<and> sublist ''tun0'' (stdout (if b then cp_ok (''5: tun0: <POINTOPOINT,UP,LOWER_UP>'' @ [nl]) else cp_fail)))
      = b" for b
    by (simp add: cp_ok_def cp_fail_def sublist_code)
  have rc: "returncode (cp_ok x) = 0" for x
    by (simp add: cp_ok_def)
  show ?thesis
    unfolding read_vpn_status_def
    apply (simp only: dev_verify dev_link_show dev_head_config prod.case running_in Let_def tun rc)
    apply (cases "daemon (w serial)"; cases "tun0 (w serial)"; simp)
    done
qed

section \<open>Status reader\<close>

text \<open>
  Claim C6. On every device the status reader returns exactly one state: Stopped when
  the daemon is not alive, Connected when it is alive and the tunnel interface is there,
  Reconnecting when it is alive and the interface is missing. When the descriptor
  cannot be read (no file, or only white space in its first 50 lines) or cannot be
  parsed (no match of the address pattern), the endpoint field is empty and the state is
  returned all the same; the last part holds for whatever the channel returns for the
  read of the descriptor.
\<close>

theorem status_reader_states:
  "state (fst (read_vpn_status (dev_host lit dns) serial w))
     = (if daemon (w serial) then (if tun0 (w serial) then Connected else Reconnecting)
        else Stopped)
   \<and> ((case config_file (w serial) of
          None \<Rightarrow> True
        | Some text \<Rightarrow> strip (head_lines 50 text) = []
                       \<or> search_key ''address:'' (head_lines 50 text) = None)
        \<longrightarrow> vs_server (fst (read_vpn_status (dev_host lit dns) serial w)) = [])
   \<and> (returncode cp \<noteq> 0 \<or> strip (stdout cp) = [] \<or> search_key ''address:'' (stdout cp) = None
        \<longrightarrow> status_server cp = [])"
  by (auto simp: dev_read_vpn_status status_server_def cp_ok_def cp_fail_def split: option.splits)

theorem status_reader_states_witness:
  "state (fst (read_vpn_status (dev_host (\<lambda>_. IsLiteral) (\<lambda>_. GaiError)) ''emulator-5554''
            (\<lambda>_. idle_device True))) = Stopped
   \<and> vs_server (fst (read_vpn_status (dev_host (\<lambda>_. IsLiteral) (\<lambda>_. GaiError)) ''emulator-5554''
            (\<lambda>_. idle_device True))) = []
   \<and> status_server cp_fail = []"
  using status_reader_states [of "\<lambda>_. IsLiteral" "\<lambda>_. GaiError" "''emulator-5554''" "\<lambda>_. idle_device True" cp_fail]
  by (simp add: idle_device_def cp_fail_def)

section \<open>Apply on a device\<close>

lemmas dev_eval = Let_def apply_cmds_def cleanup_cmds_def dev_run_def
  idle_device_def route_defs str_table

lemma first_apply:
  "write_proxy_config literal_host ''emulator-5554'' ''10.0.0.1'' 1080 [] [] (\<lambda>_. idle_device True)
   = (Success, (\<lambda>_. idle_device True)(''emulator-5554'' :=
        \<lparr>bin_present = True,
         config_file = Some (build_tunnel_config ''10.0.0.1'' 1080 [] []),
         daemon = True, survives = True, tun0 = True,
         routes = [default_gw, host_route ''10.0.0.1'', split_low, split_high],
         rules = [rule_mark, rule_main], booted = True\<rparr>))"
  using literal_resolve [of "''10.0.0.1''"] unfolding literal_host_def
  apply (subst dev_write_proxy_config [where ip = "''10.0.0.1''"])
    apply (simp add: idle_device_def)
   apply assumption
  apply (simp add: dev_eval)
  done

lemma second_apply:
  "write_proxy_config literal_host ''emulator-5554'' ''10.0.0.2'' 1080 [] []
     ((\<lambda>_. idle_device True)(''emulator-5554'' :=
        \<lparr>bin_present = True,
         config_file = Some (build_tunnel_config ''10.0.0.1'' 1080 [] []),
         daemon = True, survives = True, tun0 = True,
         routes = [default_gw, host_route ''10.0.0.1'', split_low, split_high],
         rules = [rule_mark, rule_main], booted = True\<rparr>))
   = (Success, (\<lambda>_. idle_device True)(''emulator-5554'' :=
        \<lparr>bin_present = True,
         config_file = Some (build_tunnel_config ''10.0.0.2'' 1080 [] []),
         daemon = True, survives = True, tun0 = True,
         routes = [default_gw, host_route ''10.0.0.1'', host_route ''10.0.0.2'', split_low, split_high],
         rules = [rule_mark, rule_main], booted = True\<rparr>))"
  using literal_resolve [of "''10.0.0.2''"] unfolding literal_host_def
  apply (subst dev_write_proxy_config [where ip = "''10.0.0.2''"])
    apply simp
   apply assumption
  apply (simp add: dev_eval)
  done

text \<open>
  Claim C1. A second successful apply is to supersede the first, leaving only the host
  route of the second proxy. On a device that starts idle, apply with proxy 10.0.0.1
  and then with proxy 10.0.0.2 both succeed; afterwards the split routes and the two
  rules are there once each, but the host route of 10.0.0.1 is still in the table next
  to that of 10.0.0.2: \<^verbatim>\<open>_cleanup_routing\<close> deletes no host route, and
  \<^verbatim>\<open>write_proxy_config\<close> sends no other delete for it (\<^verbatim>\<open>disconnect_vpn\<close>, step 1b,
  does).
\<close>

theorem second_apply_keeps_first_host_route:
  "fst (write_proxy_config literal_host ''emulator-5554'' ''10.0.0.1'' 1080 [] []
          (\<lambda>_. idle_device True)) = Success
   \<and> fst (write_proxy_config literal_host ''emulator-5554'' ''10.0.0.2'' 1080 [] []
          (snd (write_proxy_config literal_host ''emulator-5554'' ''10.0.0.1'' 1080 [] []
                  (\<lambda>_. idle_device True)))) = Success
   \<and> routes (snd (write_proxy_config literal_host ''emulator-5554'' ''10.0.0.2'' 1080 [] []
          (snd (write_proxy_config literal_host ''emulator-5554'' ''10.0.0.1'' 1080 [] []
                  (\<lambda>_. idle_device True)))) ''emulator-5554'')
       = [default_gw, host_route ''10.0.0.1'', host_route ''10.0.0.2'', split_low, split_high]
   \<and> rules (snd (write_proxy_config literal_host ''emulator-5554'' ''10.0.0.2'' 1080 [] []
          (snd (write_proxy_config literal_host ''emulator-5554'' ''10.0.0.1'' 1080 [] []
                  (\<lambda>_. idle_device True)))) ''emulator-5554'')
       = [rule_mark, rule_main]"
  by (simp add: first_apply second_apply)

lemma dead_apply:
  "write_proxy_config literal_host ''emulator-5554'' ''10.0.0.9'' 1080 [] [] (\<lambda>_. idle_device False)
   = (Failure daemon_failed_msg, (\<lambda>_. idle_device False)(''emulator-5554'' :=
        \<lparr>bin_present = True,
         config_file = Some (build_tunnel_config ''10.0.0.9'' 1080 [] []),
         daemon = False, survives = False, tun0 = False,
         routes = [default_gw, host_route ''10.0.0.9''],
         rules = [], booted = True\<rparr>))"
  using literal_resolve [of "''10.0.0.9''"] unfolding literal_host_def
  apply (subst dev_write_proxy_config [where ip = "''10.0.0.9''"])
    apply (simp add: idle_device_def)
   apply assumption
  apply (simp add: dev_eval)
  done

text \<open>
  Claim C4. When the daemon is found dead after routing is installed, apply is to fail
  with "daemon failed to start" and roll back all routing it installed. On an idle
  device whose daemon does not survive, apply with proxy 10.0.0.9 returns that failure
  and leaves no split route and no rule, but the host route of 10.0.0.9 that step 10
  added stays in the table.
\<close>

theorem dead_daemon_keeps_host_route:
  "fst (write_proxy_config literal_host ''emulator-5554'' ''10.0.0.9'' 1080 [] []
          (\<lambda>_. idle_device False)) = Failure daemon_failed_msg
   \<and> sublist ''daemon failed to start'' daemon_failed_msg
   \<and> routes (snd (write_proxy_config literal_host ''emulator-5554'' ''10.0.0.9'' 1080 [] []
          (\<lambda>_. idle_device False)) ''emulator-5554'')
       = [default_gw, host_route ''10.0.0.9'']
   \<and> rules (snd (write_proxy_config literal_host ''emulator-5554'' ''10.0.0.9'' 1080 [] []
          (\<lambda>_. idle_device False)) ''emulator-5554'') = []"
  by (simp add: dead_apply) (simp add: daemon_failed_msg_def sublist_code)

section \<open>Descriptor builder\<close>

text \<open>
  Claim C7. The builder is to escape every quote of the server, the user name and the
  password. For the server \<^verbatim>\<open>a'b\<close> and the user name \<^verbatim>\<open>o'k\<close> the quote of the user name
  is doubled, as the source's comment on YAML quoting says, while the quote of the
  server is copied into \<^verbatim>\<open>address: '...'\<close> as it is and ends the scalar early.
\<close>

theorem server_not_escaped:
  "build_tunnel_config (''a'' @ [sq] @ ''b'') 1080 (''o'' @ [sq] @ ''k'') ''pw''
   = ''tunnel:'' @ [nl]
     @ ''  name: tun0'' @ [nl]
     @ ''  mtu: 1500'' @ [nl]
     @ ''  ipv4: 198.18.0.1'' @ [nl]
     @ [nl]
     @ ''socks5:'' @ [nl]
     @ ''  port: 1080'' @ [nl]
     @ ''  address: '' @ [sq] @ ''a'' @ [sq] @ ''b'' @ [sq] @ [nl]
     @ ''  udp: '' @ [sq] @ ''tcp'' @ [sq] @ [nl]
     @ ''  username: '' @ [sq] @ ''o'' @ [sq, sq] @ ''k'' @ [sq] @ [nl]
     @ ''  password: '' @ [sq] @ ''pw'' @ [sq] @ [nl]
     @ ''  mark: 438'' @ [nl]
     @ [nl]
     @ ''misc:'' @ [nl]
     @ ''  task-stack-size: 24576'' @ [nl]
     @ ''  connect-timeout: 5000'' @ [nl]
     @ ''  read-write-timeout: 60000'' @ [nl]
     @ ''  log-level: warn'' @ [nl]
     @ ''  pid-file: /data/local/tmp/hev-socks5-tunnel.pid'' @ [nl]"
  by (simp add: build_tunnel_config_def auth_lines_def replace_sq_def str_int_def str_nat.simps
      TUNNEL_MARK_def TUNNEL_PID_def sq_def)

section \<open>Disconnect\<close>

text \<open>
  Claim C9. Whatever the channel returns for the teardown commands, \<^verbatim>\<open>disconnect_vpn\<close>
  and \<^verbatim>\<open>VPNManager.disconnect\<close> return the success result.
\<close>

theorem disconnect_always_ok:
  "fst (disconnect_vpn H serial w) = Success
   \<and> fst (disconnect H M instance_name serial w') = Success"
  by (simp add: disconnect_def disconnect_vpn_def Let_def split: prod.splits)

section \<open>Registries of the manager\<close>

lemma apply_proxy_result:
  assumes "apply_proxy H M n s srv p u pw w = (r, evs, M', w')"
  shows "always_on M' = always_on M" and "reconnect_state M' = reconnect_state M"
    and "kill_switch M' = kill_switch M"
    and "TryReconnect x \<notin> set evs" and "Reconnected x \<notin> set evs"
  using assms
  by (auto simp: apply_proxy_def notify_def Let_def split: prod.splits if_splits)

lemma reconnect_branch_result:
  assumes "reconnect_branch H M name serial cfg now w = (evs, M', w')"
  shows "always_on M' = always_on M" and "kill_switch M' = kill_switch M"
    and "n \<noteq> name \<Longrightarrow> reconnect_state M' n = reconnect_state M n"
    and "TryReconnect x \<in> set evs \<Longrightarrow> x = name"
    and "Reconnected x \<in> set evs
         \<Longrightarrow> reconnect_state M' name = Some \<lparr>last_attempt = 0, attempts = 0\<rparr>"
  using assms unfolding reconnect_branch_def Let_def
  by (auto split: if_splits option.splits prod.splits
      dest: apply_proxy_result(1) apply_proxy_result(2) apply_proxy_result(3)
            apply_proxy_result(4) apply_proxy_result(5))

lemma poll_instance_result:
  assumes "poll_instance H M name serial tb now w = (evs, M', w')"
  shows "always_on M' = always_on M" and "kill_switch M' = kill_switch M"
    and "n \<noteq> name \<Longrightarrow> reconnect_state M' n = reconnect_state M n"
    and "TryReconnect x \<in> set evs \<Longrightarrow> x = name \<and> always_on M name \<noteq> None"
    and "Reconnected x \<in> set evs
         \<Longrightarrow> reconnect_state M' name = Some \<lparr>last_attempt = 0, attempts = 0\<rparr>"
    and "reconnect_state M' name \<noteq> reconnect_state M name
         \<Longrightarrow> always_on M name \<noteq> None \<or> reconnect_state M' name = None"
  using assms unfolding poll_instance_def Let_def notify_def
  by (auto split: if_splits option.splits prod.splits
      dest: reconnect_branch_result(1) reconnect_branch_result(2) reconnect_branch_result(3)
            reconnect_branch_result(4) reconnect_branch_result(5))

lemma disconnect_result:
  assumes "disconnect H M name serial w = (r, evs, M', w')"
  shows "always_on M' = (always_on M)(name := None)"
    and "kill_switch M' = kill_switch M - {name}"
    and "statuses M' = (statuses M)(name \<mapsto> \<lparr>state = Stopped, vs_server = []\<rparr>)"
    and "reconnect_state M' = reconnect_state M"
    and "TryReconnect x \<notin> set evs"
  using assms
  by (auto simp: disconnect_def notify_def Let_def split: prod.splits if_splits)

lemma step_keeps_cancelled:
  assumes "step H x (M, w) = (evs, M', w')"
    and "always_on M name = None"
    and "\<forall>cfg. x \<noteq> SetAlwaysOn name (Some cfg)"
  shows "always_on M' name = None \<and> TryReconnect name \<notin> set evs"
proof (cases x)
  case (Apply n s srv prt usr pwd)
  with assms(1) obtain r where "apply_proxy H M n s srv prt usr pwd w = (r, evs, M', w')"
    by (cases "apply_proxy H M n s srv prt usr pwd w") simp
  from apply_proxy_result(1) [OF this] apply_proxy_result(4) [OF this] assms(2)
  show ?thesis by simp
next
  case (Disconnect n s)
  with assms(1) obtain r where "disconnect H M n s w = (r, evs, M', w')"
    by (cases "disconnect H M n s w") simp
  from disconnect_result(1) [OF this] disconnect_result(5) [OF this] assms(2)
  show ?thesis by simp
next
  case (SetAlwaysOn n cfg)
  with assms show ?thesis
    by (cases cfg) (auto simp: set_always_on_def)
next
  case (SetKillSwitch n s en)
  with assms show ?thesis
    by (auto simp: set_kill_switch_def split: if_splits)
next
  case (Poll n s tb now)
  with assms(1) have p: "poll_instance H M n s tb now w = (evs, M', w')"
    by simp
  from poll_instance_result(1) [OF p] poll_instance_result(4) [OF p, of name] assms(2)
  show ?thesis by auto
qed

lemma run_ops_keeps_cancelled:
  assumes "always_on M name = None"
    and "\<forall>cfg. SetAlwaysOn name (Some cfg) \<notin> set ops"
  shows "TryReconnect name \<notin> set (fst (run_ops H ops (M, w)))"
  using assms
proof (induction ops arbitrary: M w)
  case Nil
  then show ?case by simp
next
  case (Cons x xs)
  obtain evs M' w' where st: "step H x (M, w) = (evs, M', w')"
    by (cases "step H x (M, w)")
  from Cons.prems(2) have nx: "\<forall>cfg. x \<noteq> SetAlwaysOn name (Some cfg)"
    and nxs: "\<forall>cfg. SetAlwaysOn name (Some cfg) \<notin> set xs"
    by auto
  from step_keeps_cancelled [OF st Cons.prems(1) nx]
  have a: "always_on M' name = None" and e: "TryReconnect name \<notin> set evs"
    by simp_all
  from Cons.IH [OF a nxs, of w'] e st show ?case
    by (auto split: prod.splits)
qed

text \<open>
  Claim C2. After \<^verbatim>\<open>disconnect\<close> returns, the device is in neither the always-on
  registry nor the kill-switch set and its cached status is Stopped with an empty
  endpoint. Whatever manager calls and poll passes follow, on whatever devices and with
  whatever they observe, no pass enters the reconnect branch for that device as long as
  no call registers always-on for it again.
\<close>

theorem disconnect_cancels_always_on:
  assumes "\<forall>cfg. SetAlwaysOn name (Some cfg) \<notin> set ops"
  shows "always_on (fst (snd (snd (disconnect H M name serial w)))) name = None
   \<and> name \<notin> kill_switch (fst (snd (snd (disconnect H M name serial w))))
   \<and> statuses (fst (snd (snd (disconnect H M name serial w)))) name
       = Some \<lparr>state = Stopped, vs_server = []\<rparr>
   \<and> TryReconnect name \<notin> set (fst (run_ops H ops (snd (snd (disconnect H M name serial w)))))"
proof -
  obtain r evs M' w' where d: "disconnect H M name serial w = (r, evs, M', w')"
    by (cases "disconnect H M name serial w")
  have a: "always_on M' name = None"
    using disconnect_result(1) [OF d] by simp
  from run_ops_keeps_cancelled [OF a assms, of H w'] a
    disconnect_result(2) [OF d] disconnect_result(3) [OF d] d
  show ?thesis by simp
qed

theorem disconnect_cancels_always_on_witness:
  "TryReconnect ''A'' \<notin> set (fst (run_ops literal_host
       [Poll ''A'' ''emulator-5554'' 0 0, Poll ''A'' ''emulator-5554'' 40 40,
        SetAlwaysOn ''B'' (Some cfg9), Poll ''A'' ''emulator-5554'' 45 45]
       (snd (snd (disconnect literal_host (set_always_on (new_manager False) ''A'' (Some cfg9))
                    ''A'' ''emulator-5554'' (\<lambda>_. idle_device False))))))
   \<and> always_on (fst (snd (snd (disconnect literal_host
          (set_always_on (new_manager False) ''A'' (Some cfg9))
          ''A'' ''emulator-5554'' (\<lambda>_. idle_device False))))) ''A'' = None"
  using disconnect_cancels_always_on [of "''A''"
      "[Poll ''A'' ''emulator-5554'' 0 0, Poll ''A'' ''emulator-5554'' 40 40,
        SetAlwaysOn ''B'' (Some cfg9), Poll ''A'' ''emulator-5554'' 45 45]"
      literal_host "set_always_on (new_manager False) ''A'' (Some cfg9)"
      "''emulator-5554''" "\<lambda>_. idle_device False"]
  by simp

section \<open>Life of a reconnect entry\<close>

lemma idle_status:
  "read_vpn_status literal_host serial (\<lambda>_. idle_device b)
   = (\<lparr>state = Stopped, vs_server = []\<rparr>, \<lambda>_. idle_device b)"
  by (simp add: literal_host_def dev_read_vpn_status status_server_def)
     (simp add: idle_device_def cp_fail_def)

lemma idle_boot:
  "adb_shell literal_host serial GetpropBoot (\<lambda>_. idle_device b)
   = (cp_ok (''1'' @ [nl]), \<lambda>_. idle_device b)"
  by (simp add: literal_host_def dev_getprop) (simp add: idle_device_def)

lemma poll_first:
  "poll_instance literal_host (set_always_on (new_manager False) ''A'' (Some cfg9)) ''A'' ''emulator-5554'' 0 0 (\<lambda>_. idle_device False)
   = ([], (set_always_on (new_manager False) ''A'' (Some cfg9))\<lparr>boot_ready := [''A'' \<mapsto> 0]\<rparr>, \<lambda>_. idle_device False)"
  by (simp add: poll_instance_def idle_boot cp_ok_def sublist_code nl_def
      set_always_on_def new_manager_def)

lemma poll_second:
  "poll_instance literal_host ((set_always_on (new_manager False) ''A'' (Some cfg9))\<lparr>boot_ready := [''A'' \<mapsto> 0]\<rparr>)
      ''A'' ''emulator-5554'' 40 40 (\<lambda>_. idle_device False)
   = ([TryReconnect ''A'', ReconnectFailed ''A''],
      (set_always_on (new_manager False) ''A'' (Some cfg9))
        \<lparr>boot_ready := [''A'' \<mapsto> 0],
         statuses := [''A'' \<mapsto> \<lparr>state = Stopped, vs_server = []\<rparr>],
         reconnect_state := [''A'' \<mapsto> \<lparr>last_attempt = 40, attempts = 1\<rparr>]\<rparr>,
      snd (write_proxy_config literal_host ''emulator-5554'' ''10.0.0.9'' 1080 [] [] (\<lambda>_. idle_device False)))"
  by (simp add: poll_instance_def idle_boot idle_status cp_ok_def sublist_code nl_def
       set_always_on_def new_manager_def notify_def cfg9_def
       reconnect_branch_def reconnect_decide_def reconnect_delay_def
       RECONNECT_BASE_DELAY_def RECONNECT_MAX_DELAY_def RECONNECT_MAX_ATTEMPTS_def apply_proxy_def
       dead_apply daemon_failed_msg_def Let_def cong: prod.case_cong_weak)

lemma poll_success:
  "poll_instance literal_host ((set_always_on (new_manager False) ''A'' (Some cfg1))\<lparr>boot_ready := [''A'' \<mapsto> 0]\<rparr>)
      ''A'' ''emulator-5554'' 40 40 (\<lambda>_. idle_device True)
   = ([TryReconnect ''A'', Reconnected ''A''],
      (set_always_on (new_manager False) ''A'' (Some cfg1))
        \<lparr>boot_ready := [''A'' \<mapsto> 0],
         statuses := [''A'' \<mapsto> \<lparr>state = Reconnecting, vs_server = ''10.0.0.1:1080''\<rparr>],
         reconnect_state := [''A'' \<mapsto> \<lparr>last_attempt = 0, attempts = 0\<rparr>]\<rparr>,
      snd (write_proxy_config literal_host ''emulator-5554'' ''10.0.0.1'' 1080 [] [] (\<lambda>_. idle_device True)))"
  by (simp add: poll_instance_def idle_boot idle_status cp_ok_def sublist_code nl_def
       set_always_on_def new_manager_def notify_def cfg1_def
       reconnect_branch_def reconnect_decide_def reconnect_delay_def
       RECONNECT_BASE_DELAY_def RECONNECT_MAX_DELAY_def RECONNECT_MAX_ATTEMPTS_def apply_proxy_def
       first_apply Let_def str_int_def str_nat.simps enable_kill_switch_def
       cong: prod.case_cong_weak)

text \<open>
  Claim C5, as stated, fails. A device is registered always-on, a poll pass after the
  cooldown finds it stopped and its reconnect fails, and always-on is then disabled:
  the entry \<open>(40, 1)\<close> written by the failed attempt is still in the reconnect-state map
  although the device is no longer registered. Registering the device again leaves the
  entry as it is, not reset.
\<close>

theorem entry_outlives_registration:
  "reconnect_state
     (fst (snd (run_ops literal_host
        [SetAlwaysOn ''A'' (Some cfg9),
         Poll ''A'' ''emulator-5554'' 0 0,
         Poll ''A'' ''emulator-5554'' 40 40,
         SetAlwaysOn ''A'' None]
        (new_manager False, \<lambda>_. idle_device False)))) ''A''
     = Some \<lparr>last_attempt = 40, attempts = 1\<rparr>
   \<and> always_on
     (fst (snd (run_ops literal_host
        [SetAlwaysOn ''A'' (Some cfg9),
         Poll ''A'' ''emulator-5554'' 0 0,
         Poll ''A'' ''emulator-5554'' 40 40,
         SetAlwaysOn ''A'' None]
        (new_manager False, \<lambda>_. idle_device False)))) ''A'' = None
   \<and> reconnect_state
     (fst (snd (run_ops literal_host
        [SetAlwaysOn ''A'' (Some cfg9),
         Poll ''A'' ''emulator-5554'' 0 0,
         Poll ''A'' ''emulator-5554'' 40 40,
         SetAlwaysOn ''A'' None,
         SetAlwaysOn ''A'' (Some cfg9)]
        (new_manager False, \<lambda>_. idle_device False)))) ''A''
     = Some \<lparr>last_attempt = 40, attempts = 1\<rparr>"
  by (simp add: poll_first poll_second) (simp add: set_always_on_def)

text \<open>
  Claim C5, amended. \<^verbatim>\<open>set_always_on\<close> (registering, registering again, disabling) and
  \<^verbatim>\<open>disconnect\<close> leave the reconnect-state map unchanged. A poll pass for a device
  leaves the entries of all other devices alone, changes the entry of its own device
  only when that device is registered always-on or by discarding the entry, and has
  reset the entry to \<open>(0, 0)\<close> whenever it reports a successful reconnect.
\<close>

theorem reconnect_state_lifecycle:
  "reconnect_state (set_always_on M name cfg) = reconnect_state M
   \<and> reconnect_state (fst (snd (snd (disconnect H M name serial w)))) = reconnect_state M
   \<and> (n \<noteq> name \<longrightarrow>
        reconnect_state (fst (snd (poll_instance H M name serial tb now w))) n
          = reconnect_state M n)
   \<and> (reconnect_state (fst (snd (poll_instance H M name serial tb now w))) name
          \<noteq> reconnect_state M name \<longrightarrow>
        always_on M name \<noteq> None
        \<or> reconnect_state (fst (snd (poll_instance H M name serial tb now w))) name = None)
   \<and> (Reconnected name \<in> set (fst (poll_instance H M name serial tb now w)) \<longrightarrow>
        reconnect_state (fst (snd (poll_instance H M name serial tb now w))) name
          = Some \<lparr>last_attempt = 0, attempts = 0\<rparr>)"
proof -
  obtain r evs M' w' where d: "disconnect H M name serial w = (r, evs, M', w')"
    by (cases "disconnect H M name serial w")
  obtain pe PM pw where p: "poll_instance H M name serial tb now w = (pe, PM, pw)"
    by (cases "poll_instance H M name serial tb now w")
  have "reconnect_state (set_always_on M name cfg) = reconnect_state M"
    by (cases cfg) (simp_all add: set_always_on_def)
  with disconnect_result(4) [OF d] d p
    poll_instance_result(3) [OF p, of n] poll_instance_result(5) [OF p, of name]
    poll_instance_result(6) [OF p]
  show ?thesis by simp
qed

theorem reconnect_state_lifecycle_witness:
  "''B'' \<noteq> ''A''
   \<and> Reconnected ''A'' \<in> set (fst (poll_instance literal_host
        ((set_always_on (new_manager False) ''A'' (Some cfg1))\<lparr>boot_ready := [''A'' \<mapsto> 0]\<rparr>)
        ''A'' ''emulator-5554'' 40 40 (\<lambda>_. idle_device True)))
   \<and> reconnect_state ((set_always_on (new_manager False) ''A'' (Some cfg1))\<lparr>boot_ready := [''A'' \<mapsto> 0]\<rparr>) ''A''
        = None
   \<and> reconnect_state (fst (snd (poll_instance literal_host
        ((set_always_on (new_manager False) ''A'' (Some cfg1))\<lparr>boot_ready := [''A'' \<mapsto> 0]\<rparr>)
        ''A'' ''emulator-5554'' 40 40 (\<lambda>_. idle_device True)))) ''A''
        = Some \<lparr>last_attempt = 0, attempts = 0\<rparr>
   \<and> reconnect_state (fst (snd (poll_instance literal_host
        ((set_always_on (new_manager False) ''A'' (Some cfg1))\<lparr>boot_ready := [''A'' \<mapsto> 0]\<rparr>)
        ''A'' ''emulator-5554'' 40 40 (\<lambda>_. idle_device True)))) ''B'' = None"
  using reconnect_state_lifecycle [of
      "(set_always_on (new_manager False) ''A'' (Some cfg1))\<lparr>boot_ready := [''A'' \<mapsto> 0]\<rparr>"
      "''A''" None literal_host "''emulator-5554''" "\<lambda>_. idle_device True" "''B''" 40 40]
  by (simp add: poll_success) (simp add: set_always_on_def new_manager_def)

section \<open>Host resolution\<close>

lemma logged_shell:
  "adb_shell (logged H) serial c x
   = (fst (adb_shell H serial c (fst x)), (snd (adb_shell H serial c (fst x)), snd x @ [c]))"
  by (cases x) (simp add: logged_def split: prod.splits)

lemma logged_shell_trace [simp]: "snd (snd (adb_shell (logged H) serial c x)) = snd x @ [c]"
  by (simp add: logged_shell)

lemma logged_run_cmds [simp]: "snd (run_cmds (logged H) serial cs x) = snd x @ cs"
  by (induction cs arbitrary: x) simp_all

lemma logged_cleanup [simp]: "snd (cleanup_routing (logged H) serial x) = snd x @ cleanup_cmds"
  by (simp add: cleanup_routing_def)

lemma logged_push: "snd (snd (adb_push (logged H) serial x)) = snd x"
  by (cases x) (simp add: logged_def split: prod.splits)

lemma logged_push_retry: "snd (snd (push_retry (logged H) serial n x)) = snd x"
proof (induction n arbitrary: x)
  case 0
  then show ?case by simp
next
  case (Suc n)
  obtain b x' where p: "adb_push (logged H) serial x = (b, x')"
    by (cases "adb_push (logged H) serial x")
  with logged_push [of H serial x] have "snd x' = snd x" by simp
  with Suc.IH [of x'] p show ?case by (cases b) simp_all
qed

lemma logged_ensure_binary:
  "\<exists>t. snd (snd (ensure_binary (logged H) serial x)) = snd x @ t"
proof -
  obtain cp x1 where t: "adb_shell (logged H) serial TestBin x = (cp, x1)"
    by (cases "adb_shell (logged H) serial TestBin x")
  with logged_shell_trace [of H serial TestBin x] have x1: "snd x1 = snd x @ [TestBin]"
    by simp
  obtain b x2 where p: "push_retry (logged H) serial 3 x1 = (b, x2)"
    by (cases "push_retry (logged H) serial 3 x1")
  with logged_push_retry [of H serial 3 x1] have x2: "snd x2 = snd x1" by simp
  show ?thesis
    using t x1 p x2 by (cases b) (auto simp: ensure_binary_def)
qed

lemma logged_wait_tun0: "\<exists>t. snd (snd (wait_tun0 (logged H) serial n x)) = snd x @ t"
proof (induction n arbitrary: x)
  case 0
  then show ?case by simp
next
  case (Suc n)
  obtain cp x1 where t: "adb_shell (logged H) serial IpLinkShowUp x = (cp, x1)"
    by (cases "adb_shell (logged H) serial IpLinkShowUp x")
  with logged_shell_trace [of H serial IpLinkShowUp x] have x1: "snd x1 = snd x @ [IpLinkShowUp]"
    by simp
  from Suc.IH [of x1] obtain t' where "snd (snd (wait_tun0 (logged H) serial n x1)) = snd x1 @ t'"
    by blast
  with t x1 show ?case by auto
qed


lemma logged_geo: "snd (snd (patch_geo (logged H) serial x)) = snd x"
  by (cases x) (simp add: logged_def split: prod.splits)

lemma logged_geo_retry: "snd (geo_retry (logged H) serial n x) = snd x"
proof (induction n arbitrary: x)
  case 0
  then show ?case by simp
next
  case (Suc n)
  obtain b x' where p: "patch_geo (logged H) serial x = (b, x')"
    by (cases "patch_geo (logged H) serial x")
  with logged_geo [of H serial x] have "snd x' = snd x" by simp
  with Suc.IH [of x'] p show ?case by (cases b) simp_all
qed

lemma logged_resolve: "resolve_host (logged H) h = resolve_host H h"
proof -
  have "inet_aton (logged H) = inet_aton H" and "gethostbyname (logged H) = gethostbyname H"
    by (simp_all add: logged_def)
  then show ?thesis
    unfolding resolve_host_def by (simp only:)
qed

text \<open>
  What \<^verbatim>\<open>_resolve_host\<close> returns and when it raises, and what apply does with a name
  that comes back as it is: the push failure is returned exactly when the binary check
  fails; otherwise the descriptor built from the name is written, and unless that write
  fails the host route of the name is requested and apply ends with success or with the
  failed start check.
\<close>

lemma resolve_host_cases:
  "inet_aton H h = IsLiteral \<Longrightarrow> resolve_host H h = Some h"
  "inet_aton H h = NotLiteral \<Longrightarrow> gethostbyname H h = GaiError \<Longrightarrow> resolve_host H h = Some h"
  "inet_aton H h = NotLiteral \<Longrightarrow> gethostbyname H h = Resolved ip \<Longrightarrow> resolve_host H h = Some ip"
  "resolve_host H h = None \<longleftrightarrow>
     inet_aton H h = AtonRaises \<or> (inet_aton H h = NotLiteral \<and> gethostbyname H h = DnsRaises)"
  by (auto simp: resolve_host_def split: aton_outcome.splits dns_outcome.splits)

lemma fallback_apply_uses_name:
  assumes "resolve_host H h = Some h"
  shows "(fst (write_proxy_config (logged H) serial h port u p (w, []))
            = Failure ''Failed to push tunnel binary to device''
          \<longleftrightarrow> \<not> fst (ensure_binary (logged H) serial (w, [])))
   \<and> (fst (ensure_binary (logged H) serial (w, [])) \<longrightarrow>
        WriteConfig (build_tunnel_config h port u p)
          \<in> set (snd (snd (write_proxy_config (logged H) serial h port u p (w, []))))
        \<and> ((\<exists>e. fst (write_proxy_config (logged H) serial h port u p (w, []))
                   = Failure (''Failed to write config: '' @ e))
           \<or> (IpRouteAdd (host_route h)
                 \<in> set (snd (snd (write_proxy_config (logged H) serial h port u p (w, []))))
               \<and> (fst (write_proxy_config (logged H) serial h port u p (w, [])) = Success
                  \<or> fst (write_proxy_config (logged H) serial h port u p (w, []))
                      = Failure daemon_failed_msg))))"
proof -
  let ?L = "logged H"
  let ?r = "write_proxy_config ?L serial h port u p (w, [])"
  have res: "resolve_host ?L h = Some h"
    unfolding logged_resolve by (rule assms)
  define y where "y = build_tunnel_config h port u p"
  obtain b x1 where eb: "ensure_binary ?L serial (w, []) = (b, x1)"
    by (cases "ensure_binary ?L serial (w, [])")
  define x5 where "x5 = snd (adb_shell ?L serial (IpRouteAdd default_gw)
      (snd (adb_shell ?L serial IpLinkDelete
        (cleanup_routing ?L serial (snd (adb_shell ?L serial KillPkill x1))))))"
  obtain cp x6 where wc: "adb_shell ?L serial (WriteConfig y) x5 = (cp, x6)"
    by (cases "adb_shell ?L serial (WriteConfig y) x5")
  have t6: "snd x6 = snd x5 @ [WriteConfig y]"
    using logged_shell_trace [of H serial "WriteConfig y" x5] wc by simp
  define x8 where "x8 = snd (wait_tun0 ?L serial 10 (run_cmds ?L serial [SysctlAll, StartDaemon] x6))"
  obtain t8 where t8: "snd x8 = snd x6 @ [SysctlAll, StartDaemon] @ t8"
    using logged_wait_tun0 [of H serial 10 "run_cmds ?L serial [SysctlAll, StartDaemon] x6"]
    unfolding x8_def by auto
  define x9 where "x9 = run_cmds ?L serial
      [SysctlTun0, IpRouteAdd (host_route h), IpRouteAdd split_low, IpRouteAdd split_high,
       IpRuleAdd rule_mark, IpRuleAdd rule_main] x8"
  have t9: "snd x9 = snd x8 @ [SysctlTun0, IpRouteAdd (host_route h), IpRouteAdd split_low,
      IpRouteAdd split_high, IpRuleAdd rule_mark, IpRuleAdd rule_main]"
    by (simp add: x9_def)
  obtain cpv x10 where kz: "adb_shell ?L serial (KillZero ''DEAD'') x9 = (cpv, x10)"
    by (cases "adb_shell ?L serial (KillZero ''DEAD'') x9")
  have t10: "snd x10 = snd x9 @ [KillZero ''DEAD'']"
    using logged_shell_trace [of H serial "KillZero ''DEAD''" x9] kz by simp
  have wpc: "?r =
      (if \<not> b then (Failure ''Failed to push tunnel binary to device'', x1)
       else if returncode cp \<noteq> 0
         then (Failure (''Failed to write config: '' @ strip (stderr cp)), x6)
       else if \<not> sublist ''RUNNING'' (stdout cpv)
         then (Failure daemon_failed_msg, cleanup_routing ?L serial x10)
       else (Success, geo_retry ?L serial 3 x10))"
    unfolding write_proxy_config_def res option.case Let_def eb
    using wc kz
    by (cases b) (simp_all only: prod.case bool.case if_True if_False not_True_eq_False
        not_False_eq_True x5_def [symmetric] y_def [symmetric] x8_def [symmetric]
        x9_def [symmetric] split: if_splits)
  have in6: "WriteConfig y \<in> set (snd x6)"
    by (simp add: t6)
  have in10: "WriteConfig y \<in> set (snd x10) \<and> IpRouteAdd (host_route h) \<in> set (snd x10)"
    by (simp add: t10 t9 t8 t6)
  have msg: "daemon_failed_msg \<noteq> ''Failed to push tunnel binary to device''"
    by (simp add: daemon_failed_msg_def)
  show ?thesis
    using in6 in10 msg unfolding wpc y_def [symmetric] eb
    by (auto simp: logged_geo_retry)
qed

lemma unresolved_name_apply:
  "write_proxy_config unresolving_host ''emulator-5554'' ''proxy.invalid'' 1080 [] []
     (\<lambda>_. idle_device True)
   = (Success, (\<lambda>_. idle_device True)(''emulator-5554'' :=
        \<lparr>bin_present = True,
         config_file = Some (build_tunnel_config ''proxy.invalid'' 1080 [] []),
         daemon = True, survives = True, tun0 = True,
         routes = [default_gw, host_route ''proxy.invalid'', split_low, split_high],
         rules = [rule_mark, rule_main], booted = True\<rparr>))"
proof -
  have "resolve_host unresolving_host ''proxy.invalid'' = Some ''proxy.invalid''"
    by (simp add: resolve_host_def unresolving_host_def dev_host_sel sublist_code)
  then show ?thesis
    unfolding unresolving_host_def
    apply (subst dev_write_proxy_config [where ip = "''proxy.invalid''"])
      apply (simp add: idle_device_def)
     apply assumption
    apply (simp add: dev_eval)
    done
qed

text \<open>
  Claim C10. Resolution before apply is to be total and never fail the operation: a
  name that cannot be resolved is to be used as it is. For the name \<^verbatim>\<open>a..b\<close> the lookup
  raises while encoding the name, which neither \<^verbatim>\<open>except\<close> clause of \<^verbatim>\<open>_resolve_host\<close>
  catches: \<^verbatim>\<open>_resolve_host\<close> raises, and \<^verbatim>\<open>write_proxy_config\<close> ends with that exception
  and the device untouched, where the comment of line 292 wants the name tried as it is
  and the docstring of \<^verbatim>\<open>write_proxy_config\<close> promises a result dict. A name whose lookup
  fails with \<^verbatim>\<open>gaierror\<close> is returned unchanged on the same host.
\<close>

theorem unencodable_name_raises:
  "resolve_host unresolving_host ''a..b'' = None
   \<and> write_proxy_config unresolving_host ''emulator-5554'' ''a..b'' 1080 [] []
        (\<lambda>_. idle_device True) = (Raised, \<lambda>_. idle_device True)
   \<and> resolve_host unresolving_host ''proxy.invalid'' = Some ''proxy.invalid''"
  by (simp add: write_proxy_config_def resolve_host_def unresolving_host_def dev_host_sel
      sublist_code)

end
